theory Spec2Isabelle
  imports Complex_Main
begin

section \<open>Data model\<close>

text \<open>
  The repository is a video monitor with two front ends, \<^verbatim>\<open>headless.py\<close>
  (class \<^verbatim>\<open>HeadlessMotionDetector\<close>, method \<^verbatim>\<open>run\<close>) and
  \<^verbatim>\<open>GUI_webcam.py\<close> (class \<^verbatim>\<open>WebcamApp\<close>, method \<^verbatim>\<open>update\<close>),
  and one audio routine, \<^verbatim>\<open>play_gtts_text\<close> of \<^verbatim>\<open>tts_player.py\<close>.

  Time stamps are the values of \<^verbatim>\<open>time.time()\<close>; they are modelled as reals, so
  the comparisons of the source are the comparisons of the model up to the rounding of
  Python floats. What the camera, the detector, the motion sensor and the clock
  deliver is the input of a frame; what the code does to the outside (detector call,
  motion sensing, files, audio) is returned as a list of effects.
\<close>

text \<open>One entry of \<^verbatim>\<open>persistent_detections\<close>: the dict with keys label, confidence, bbox.\<close>

record detection =
  label :: string
  confidence :: real
  bbox :: "int \<times> int \<times> int \<times> int"

text \<open>One element of \<^verbatim>\<open>r.boxes\<close> as the detector returns it: \<^verbatim>\<open>box.xyxy[0]\<close>,
  \<^verbatim>\<open>box.cls[0]\<close> and \<^verbatim>\<open>box.conf[0]\<close>, all floating point.\<close>

record box =
  xyxy :: "real \<times> real \<times> real \<times> real"
  cls :: real
  conf :: real

text \<open>The keys of the dict \<^verbatim>\<open>last_saved_times\<close>: "motion" and "person". Both are set
  in \<^verbatim>\<open>__init__\<close> and no key is ever added or removed.\<close>

datatype save_key = Motion | Person

text \<open>The text handed to \<^verbatim>\<open>play_gtts_text\<close>. The source builds three texts
  ("Pessoa detectada ...", "Animal detectado ...", "Movimento detectado ..."), the first
  two with the wall-clock time of the detection inside; the model keeps which of the
  three it is.\<close>

datatype alert = PersonAlert | AnimalAlert | MotionAlert

text \<open>What \<^verbatim>\<open>play_gtts_text\<close> does to the file system and the audio device, in order:
  \<^verbatim>\<open>tts.save(file)\<close>, the ffmpeg run from one file to another at a speed, the start of
  the background thread that plays a file and then removes it, and \<^verbatim>\<open>os.remove\<close>.\<close>

datatype file_op =
    TtsSave alert string
  | Ffmpeg string real string
  | PlayThenRemove string
  | Remove string

text \<open>The effects of one frame. \<open>SaveFrame k boxes\<close> is a call of \<^verbatim>\<open>save_frame\<close> into
  the folder of \<open>k\<close>, with the boxes that have been drawn on the frame by then (none: the
  frame is as the camera delivered it). \<open>PlayGtts text cooldown speed ops\<close> is a call of
  \<^verbatim>\<open>play_gtts_text\<close> with what it did (\<open>ops = []\<close> when the cooldown stopped it).\<close>

datatype effect =
    RunDetector
  | MotionSense
  | SaveFrame save_key "detection list"
  | PlayGtts alert real real "file_op list"
  | ReleaseSource

datatype error = ZeroDivisionError | DetectorRaised

text \<open>The mutable state: the attributes of the detector object that the frame loop reads
  and writes, and the module global \<^verbatim>\<open>last_audio_time\<close> of \<^verbatim>\<open>tts_player.py\<close>.\<close>

record sys_state =
  frame_skip :: int
  frame_count :: int
  last_saved_times :: "save_key \<Rightarrow> real"
  motion_enabled :: bool
  motion_disabled_until :: real
  persistent_detections :: "detection list"
  last_audio_time :: real

text \<open>The state after \<^verbatim>\<open>__init__\<close>, with \<^verbatim>\<open>last_audio_time = 0\<close> as the module sets it.\<close>

definition initial_state :: sys_state where
  "initial_state =
     \<lparr>frame_skip = 5, frame_count = 0, last_saved_times = (\<lambda>k. 0),
      motion_enabled = True, motion_disabled_until = 0,
      persistent_detections = [], last_audio_time = 0\<rparr>"

text \<open>What one frame receives from outside:
  \<^item> \<open>current_time\<close>: \<^verbatim>\<open>time.time()\<close> read at the top of the frame;
  \<^item> \<open>results\<close>: what \<^verbatim>\<open>model(frame)\<close> returns if it is called, a list of results each
    with its boxes; \<open>None\<close> when the call raises;
  \<^item> \<open>contour_areas\<close>: \<^verbatim>\<open>cv2.contourArea\<close> of each contour the motion sensor finds
    if it is run;
  \<^item> \<open>alert_clock\<close>, \<open>motion_clock\<close>: \<^verbatim>\<open>time.time()\<close> as \<^verbatim>\<open>play_gtts_text\<close> reads it
    itself, when called from the detection loop and from the motion branch.\<close>

record frame_input =
  current_time :: real
  results :: "box list list option"
  contour_areas :: "real list"
  alert_clock :: real
  motion_clock :: real

section \<open>The audio routine (tts_player.py)\<close>

text \<open>\<^verbatim>\<open>play_gtts_text(text, cooldown, speed)\<close>, lines 10 to 54; \<open>now\<close> is its own
  \<^verbatim>\<open>time.time()\<close>. The synthesis, ffmpeg and the file removals are taken to return
  normally.\<close>

definition play_gtts_text ::
  "alert \<Rightarrow> real \<Rightarrow> real \<Rightarrow> real \<Rightarrow> sys_state \<Rightarrow> file_op list \<times> sys_state" where
  "play_gtts_text text cooldown speed now s =
     (if now - last_audio_time s < cooldown then ([], s)
      else
        (let original_audio = ''detection_sound_original.mp3'';
             adjusted_audio = ''detection_sound_adjusted.mp3''
         in ([TtsSave text original_audio,
              Ffmpeg original_audio speed adjusted_audio,
              PlayThenRemove adjusted_audio,
              Remove original_audio],
             s\<lparr>last_audio_time := now\<rparr>)))"

text \<open>The file names an operation reads, writes or deletes.\<close>

fun files_of :: "file_op \<Rightarrow> string list" where
  "files_of (TtsSave t f) = [f]"
| "files_of (Ffmpeg f v g) = [f, g]"
| "files_of (PlayThenRemove f) = [f]"
| "files_of (Remove f) = [f]"

text \<open>The throttle categories of the specification, and the variable of the code that the
  check of each category compares with: the entry of \<^verbatim>\<open>last_saved_times\<close> for a save
  (headless.py lines 167 and 182), \<^verbatim>\<open>last_audio_time\<close> for every audio alert
  (tts_player.py line 21).\<close>

datatype category = SaveCat save_key | AlertCat alert

fun last_fired :: "category \<Rightarrow> sys_state \<Rightarrow> real" where
  "last_fired (SaveCat k) s = last_saved_times s k"
| "last_fired (AlertCat a) s = last_audio_time s"

section \<open>The detector step (both front ends)\<close>

text \<open>Python's \<^verbatim>\<open>int(x)\<close> on a float: truncation towards zero.\<close>

definition py_int :: "real \<Rightarrow> int" where
  "py_int x = (if 0 \<le> x then \<lfloor>x\<rfloor> else \<lceil>x\<rceil>)"

text \<open>Python's \<^verbatim>\<open>str\<close> on an int, used for a class id that has no name.\<close>

fun str_nat :: "nat \<Rightarrow> string" where
  "str_nat n =
     (if n < 10 then [''0123456789'' ! n]
      else str_nat (n div 10) @ [''0123456789'' ! (n mod 10)])"

declare str_nat.simps [simp del]

definition str_int :: "int \<Rightarrow> string" where
  "str_int i = (if i < 0 then ''-'' @ str_nat (nat (- i)) else str_nat (nat i))"

definition allowed_labels :: "string set" where
  "allowed_labels = {''person'', ''cat'', ''dog''}"

text \<open>The body of the inner loop over \<^verbatim>\<open>r.boxes\<close> (headless.py lines 111 to 121,
  GUI_webcam.py lines 125 to 136): the entries one box appends to the list. \<open>names\<close> is
  the table \<^verbatim>\<open>model.names\<close> of the detector model.\<close>

definition box_entries :: "(int \<rightharpoonup> string) \<Rightarrow> box \<Rightarrow> detection list" where
  "box_entries names b =
     (case xyxy b of (x_min, y_min, x_max, y_max) \<Rightarrow>
        (let cls_id = py_int (cls b);
             lbl = (case names cls_id of Some l \<Rightarrow> l | None \<Rightarrow> str_int cls_id)
         in if lbl \<in> allowed_labels
            then [\<lparr>label = lbl, confidence = conf b,
                   bbox = (py_int x_min, py_int y_min, py_int x_max, py_int y_max)\<rparr>]
            else []))"

text \<open>The two nested loops: the list starts empty and every box of every result appends
  its entries in order.\<close>

definition collect :: "(int \<rightharpoonup> string) \<Rightarrow> box list list \<Rightarrow> detection list" where
  "collect names rs = concat (map (\<lambda>r. concat (map (box_entries names) r)) rs)"

text \<open>\<^verbatim>\<open>any(cv2.contourArea(c) > 500 for c in motion_contours)\<close>.\<close>

definition significant_motion :: "frame_input \<Rightarrow> bool" where
  "significant_motion inp = list_ex (\<lambda>a. 500 < a) (contour_areas inp)"

section \<open>The headless loop (headless.py)\<close>

text \<open>The loop over the cached detections, lines 132 to 140: the first entry that is a
  person or a cat or dog ends the loop.\<close>

fun dispatch_headless :: "detection list \<Rightarrow> frame_input \<Rightarrow> sys_state \<Rightarrow> effect list \<times> sys_state" where
  "dispatch_headless [] inp s = ([], s)"
| "dispatch_headless (d # ds) inp s =
     (if label d = ''person'' then
        (case play_gtts_text PersonAlert 3 1.71 (alert_clock inp) s of (ops, s1) \<Rightarrow>
           ([PlayGtts PersonAlert 3 1.71 ops],
            s1\<lparr>motion_enabled := False, motion_disabled_until := current_time inp + 20\<rparr>))
      else if label d \<in> {''cat'', ''dog''} then
        (case play_gtts_text AnimalAlert 3 1.71 (alert_clock inp) s of (ops, s1) \<Rightarrow>
           ([PlayGtts AnimalAlert 3 1.71 ops], s1))
      else dispatch_headless ds inp s)"

text \<open>Sections 1 and 2 of the loop body, lines 103 to 140. \<^verbatim>\<open>frame_count % frame_skip\<close>
  raises when \<^verbatim>\<open>frame_skip\<close> is 0; for any other divisor Python's \<^verbatim>\<open>%\<close> is \<open>mod\<close> on
  \<open>int\<close>. The detector is called before anything is written, so a call that raises
  leaves the state as it was.\<close>

definition yolo_headless ::
  "(int \<rightharpoonup> string) \<Rightarrow> frame_input \<Rightarrow> sys_state \<Rightarrow> effect list \<times> (error + sys_state)" where
  "yolo_headless names inp s =
     (if frame_skip s = 0 then ([], Inl ZeroDivisionError)
      else if frame_count s mod frame_skip s = 0 then
        (case results inp of
           None \<Rightarrow> ([RunDetector], Inl DetectorRaised)
         | Some rs \<Rightarrow>
             (let s1 = s\<lparr>persistent_detections := collect names rs\<rparr> in
              if persistent_detections s1 \<noteq> [] then
                (case dispatch_headless (persistent_detections s1) inp s1 of
                   (es, s2) \<Rightarrow> (RunDetector # es, Inr s2))
              else ([RunDetector], Inr s1)))
      else ([], Inr s))"

text \<open>Sections 3 and 4, lines 145 to 169. Section 3 draws the cached boxes on the frame
  itself; section 4 saves that frame.\<close>

definition person_save_headless :: "frame_input \<Rightarrow> sys_state \<Rightarrow> effect list \<times> sys_state" where
  "person_save_headless inp s =
     (if persistent_detections s \<noteq> [] \<and> current_time inp - last_saved_times s Person \<ge> 0.2
      then ([SaveFrame Person (persistent_detections s)],
            s\<lparr>last_saved_times := (last_saved_times s)(Person := current_time inp)\<rparr>)
      else ([], s))"

text \<open>Section 5, lines 174 to 192. The frame handed to the motion sensor and to
  \<^verbatim>\<open>save_frame\<close> is the frame section 3 has drawn on.\<close>

definition motion_headless :: "frame_input \<Rightarrow> sys_state \<Rightarrow> effect list \<times> sys_state" where
  "motion_headless inp s =
     (if motion_enabled s then
        (if significant_motion inp \<and> current_time inp - last_saved_times s Motion \<ge> 0.2 then
           (case play_gtts_text MotionAlert 10 2.22 (motion_clock inp)
                   (s\<lparr>last_saved_times := (last_saved_times s)(Motion := current_time inp)\<rparr>) of
              (ops, s1) \<Rightarrow>
                ([MotionSense, SaveFrame Motion (persistent_detections s),
                  PlayGtts MotionAlert 10 2.22 ops], s1))
         else ([MotionSense], s))
      else
        ([], if current_time inp \<ge> motion_disabled_until s
             then s\<lparr>motion_enabled := True\<rparr> else s))"

text \<open>The body of the \<^verbatim>\<open>while\<close> loop for a frame that was read, lines 98 to 198.\<close>

definition headless_frame ::
  "(int \<rightharpoonup> string) \<Rightarrow> frame_input \<Rightarrow> sys_state \<Rightarrow> effect list \<times> (error + sys_state)" where
  "headless_frame names inp s =
     (case yolo_headless names inp s of
        (es1, Inl e) \<Rightarrow> (es1, Inl e)
      | (es1, Inr s1) \<Rightarrow>
          (case person_save_headless inp s1 of (es4, s4) \<Rightarrow>
             (case motion_headless inp s4 of (es5, s5) \<Rightarrow>
                (es1 @ es4 @ es5, Inr (s5\<lparr>frame_count := frame_count s5 + 1\<rparr>)))))"

text \<open>How far a loop has come on the reads it was given: still in the loop, left it
  because a read failed, or left it with an exception.\<close>

datatype status = Running | ReadFailed | Raised error

text \<open>\<^verbatim>\<open>run\<close>, lines 91 to 204, on a list of reads of the video source (\<open>None\<close>: the read
  returned \<^verbatim>\<open>ret = False\<close>). A failed read breaks the loop; an exception of the body is
  not caught (only \<^verbatim>\<open>KeyboardInterrupt\<close> is), so it leaves the loop too; both pass the
  \<^verbatim>\<open>finally\<close> block, which releases the source.\<close>

fun run_headless ::
  "(int \<rightharpoonup> string) \<Rightarrow> frame_input option list \<Rightarrow> sys_state \<Rightarrow> status \<times> effect list \<times> sys_state" where
  "run_headless names [] s = (Running, [], s)"
| "run_headless names (None # rest) s = (ReadFailed, [ReleaseSource], s)"
| "run_headless names (Some inp # rest) s =
     (case headless_frame names inp s of
        (es, Inl e) \<Rightarrow> (Raised e, es @ [ReleaseSource], s)
      | (es, Inr s1) \<Rightarrow>
          (case run_headless names rest s1 of (st, es', s2) \<Rightarrow> (st, es @ es', s2)))"

section \<open>The window loop (GUI_webcam.py)\<close>

text \<open>The loop over the cached detections, lines 148 to 157: only a person ends it; the
  branch for cat and dog is commented out.\<close>

fun dispatch_gui :: "detection list \<Rightarrow> frame_input \<Rightarrow> sys_state \<Rightarrow> effect list \<times> sys_state" where
  "dispatch_gui [] inp s = ([], s)"
| "dispatch_gui (d # ds) inp s =
     (if label d = ''person'' then
        (case play_gtts_text PersonAlert 5 1.71 (alert_clock inp) s of (ops, s1) \<Rightarrow>
           ([PlayGtts PersonAlert 5 1.71 ops],
            s1\<lparr>motion_enabled := False, motion_disabled_until := current_time inp + 20\<rparr>))
      else dispatch_gui ds inp s)"

text \<open>Sections 1 and 2 of \<^verbatim>\<open>update\<close>, lines 117 to 157.\<close>

definition yolo_gui ::
  "(int \<rightharpoonup> string) \<Rightarrow> frame_input \<Rightarrow> sys_state \<Rightarrow> effect list \<times> (error + sys_state)" where
  "yolo_gui names inp s =
     (if frame_skip s = 0 then ([], Inl ZeroDivisionError)
      else if frame_count s mod frame_skip s = 0 then
        (case results inp of
           None \<Rightarrow> ([RunDetector], Inl DetectorRaised)
         | Some rs \<Rightarrow>
             (let s1 = s\<lparr>persistent_detections := collect names rs\<rparr> in
              if persistent_detections s1 \<noteq> [] then
                (case dispatch_gui (persistent_detections s1) inp s1 of
                   (es, s2) \<Rightarrow> (RunDetector # es, Inr s2))
              else ([RunDetector], Inr s1)))
      else ([], Inr s))"

text \<open>Section 4, lines 164 to 184: nothing has been drawn on the frame yet, and the save
  is not behind a check of \<^verbatim>\<open>last_saved_times\<close>.\<close>

definition motion_gui :: "frame_input \<Rightarrow> sys_state \<Rightarrow> effect list \<times> sys_state" where
  "motion_gui inp s =
     (if motion_enabled s then
        (if significant_motion inp then
           (case play_gtts_text MotionAlert 10 1.61 (motion_clock inp)
                   (s\<lparr>last_saved_times := (last_saved_times s)(Motion := current_time inp)\<rparr>) of
              (ops, s1) \<Rightarrow>
                ([MotionSense, SaveFrame Motion [], PlayGtts MotionAlert 10 1.61 ops], s1))
         else ([MotionSense], s))
      else
        ([], if current_time inp \<ge> motion_disabled_until s
             then s\<lparr>motion_enabled := True\<rparr> else s))"

text \<open>Section 5, lines 189 to 209: the loop draws one box per round, and the save of
  the person frame stands inside the loop body, so it is tried after each box, with the
  boxes drawn so far (\<open>drawn\<close>).\<close>

fun draw_gui ::
  "detection list \<Rightarrow> detection list \<Rightarrow> frame_input \<Rightarrow> sys_state \<Rightarrow> effect list \<times> sys_state" where
  "draw_gui [] drawn inp s = ([], s)"
| "draw_gui (d # ds) drawn inp s =
     (if persistent_detections s \<noteq> [] \<and> current_time inp - last_saved_times s Person \<ge> 0.2
      then
        (case draw_gui ds (drawn @ [d]) inp
                (s\<lparr>last_saved_times := (last_saved_times s)(Person := current_time inp)\<rparr>) of
           (es, s1) \<Rightarrow> (SaveFrame Person (drawn @ [d]) # es, s1))
      else draw_gui ds (drawn @ [d]) inp s)"

text \<open>\<^verbatim>\<open>update\<close>, lines 105 to 223, on one read of the video source. A failed read only
  schedules the next call.\<close>

definition gui_update ::
  "(int \<rightharpoonup> string) \<Rightarrow> frame_input option \<Rightarrow> sys_state \<Rightarrow> effect list \<times> (error + sys_state)" where
  "gui_update names rd s =
     (case rd of
        None \<Rightarrow> ([], Inr s)
      | Some inp \<Rightarrow>
          (case yolo_gui names inp s of
             (es1, Inl e) \<Rightarrow> (es1, Inl e)
           | (es1, Inr s1) \<Rightarrow>
               (case motion_gui inp s1 of (es4, s4) \<Rightarrow>
                  (case draw_gui (persistent_detections s4) [] inp s4 of (es5, s5) \<Rightarrow>
                     (es1 @ es4 @ es5, Inr (s5\<lparr>frame_count := frame_count s5 + 1\<rparr>))))))"

text \<open>The calls of \<^verbatim>\<open>update\<close> that follow each other: every call that returns schedules
  the next one in its last line, a call that raises schedules none.\<close>

fun run_gui ::
  "(int \<rightharpoonup> string) \<Rightarrow> frame_input option list \<Rightarrow> sys_state \<Rightarrow> status \<times> effect list \<times> sys_state" where
  "run_gui names [] s = (Running, [], s)"
| "run_gui names (rd # rest) s =
     (case gui_update names rd s of
        (es, Inl e) \<Rightarrow> (Raised e, es, s)
      | (es, Inr s1) \<Rightarrow>
          (case run_gui names rest s1 of (st, es', s2) \<Rightarrow> (st, es @ es', s2)))"

section \<open>Reading the effects\<close>

text \<open>The texts for which a list of effects calls \<^verbatim>\<open>play_gtts_text\<close>, in order.\<close>

fun alerts_of :: "effect list \<Rightarrow> alert list" where
  "alerts_of [] = []"
| "alerts_of (PlayGtts a c v ops # es) = a # alerts_of es"
| "alerts_of (e # es) = alerts_of es"

text \<open>The calls among them that come from the loop over the detections: every text but
  the one of the motion branch.\<close>

definition dispatched :: "effect list \<Rightarrow> alert list" where
  "dispatched es = filter (\<lambda>a. a \<noteq> MotionAlert) (alerts_of es)"


text \<open>All file names a list of operations touches.\<close>

definition ops_files :: "file_op list \<Rightarrow> string set" where
  "ops_files ops = (\<Union>op \<in> set ops. set (files_of op))"

text \<open>A frame on which the detector, if it is called and returns, delivers no person.\<close>

definition person_free :: "(int \<rightharpoonup> string) \<Rightarrow> frame_input \<Rightarrow> bool" where
  "person_free names inp =
     (case results inp of
        None \<Rightarrow> True
      | Some rs \<Rightarrow> \<not> list_ex (\<lambda>d. label d = ''person'') (collect names rs))"

text \<open>The table of class names used in the examples: the three classes the code keeps,
  and one it drops.\<close>

definition coco :: "int \<rightharpoonup> string" where
  "coco = [0 \<mapsto> ''person'', 15 \<mapsto> ''cat'', 16 \<mapsto> ''dog'', 2 \<mapsto> ''car'']"

definition person_box :: box where
  "person_box = \<lparr>xyxy = (10, 10, 50, 50), cls = 0, conf = 0.9\<rparr>"

definition cat_box :: box where
  "cat_box = \<lparr>xyxy = (60, 60, 90, 90), cls = 15, conf = 0.95\<rparr>"

definition person_det :: detection where
  "person_det = \<lparr>label = ''person'', confidence = 0.9, bbox = (10, 10, 50, 50)\<rparr>"

definition cat_det :: detection where
  "cat_det = \<lparr>label = ''cat'', confidence = 0.95, bbox = (60, 60, 90, 90)\<rparr>"

text \<open>A frame input whose three clock readings are the same instant.\<close>

definition fr :: "real \<Rightarrow> box list list option \<Rightarrow> real list \<Rightarrow> frame_input" where
  "fr t r a = \<lparr>current_time = t, results = r, contour_areas = a, alert_clock = t, motion_clock = t\<rparr>"

section \<open>Facts about the parts of a frame\<close>

lemma play_passes:
  "cd \<le> now - last_audio_time s \<Longrightarrow>
   play_gtts_text a cd sp now s =
     ([TtsSave a ''detection_sound_original.mp3'',
       Ffmpeg ''detection_sound_original.mp3'' sp ''detection_sound_adjusted.mp3'',
       PlayThenRemove ''detection_sound_adjusted.mp3'',
       Remove ''detection_sound_original.mp3''],
      s\<lparr>last_audio_time := now\<rparr>)"
  by (simp add: play_gtts_text_def Let_def)

lemma play_blocked:
  "now - last_audio_time s < cd \<Longrightarrow> play_gtts_text a cd sp now s = ([], s)"
  by (simp add: play_gtts_text_def)

lemma play_state:
  "snd (play_gtts_text a cd sp now s) =
     s\<lparr>last_audio_time := (if fst (play_gtts_text a cd sp now s) = [] then last_audio_time s else now)\<rparr>"
  by (simp add: play_gtts_text_def Let_def)

lemma play_fields:
  "frame_skip (snd (play_gtts_text a cd sp now s)) = frame_skip s"
  "frame_count (snd (play_gtts_text a cd sp now s)) = frame_count s"
  "last_saved_times (snd (play_gtts_text a cd sp now s)) = last_saved_times s"
  "motion_enabled (snd (play_gtts_text a cd sp now s)) = motion_enabled s"
  "motion_disabled_until (snd (play_gtts_text a cd sp now s)) = motion_disabled_until s"
  "persistent_detections (snd (play_gtts_text a cd sp now s)) = persistent_detections s"
  by (simp_all add: play_gtts_text_def Let_def)

lemma play_audio_time:
  "last_audio_time (snd (play_gtts_text a cd sp now s)) = last_audio_time s
   \<or> last_audio_time (snd (play_gtts_text a cd sp now s)) = now"
  by (simp add: play_gtts_text_def Let_def)

lemma dispatch_headless_fields:
  "dispatch_headless ds inp s = (es, s') \<Longrightarrow>
     frame_skip s' = frame_skip s \<and> frame_count s' = frame_count s
     \<and> last_saved_times s' = last_saved_times s
     \<and> persistent_detections s' = persistent_detections s"
proof (induction ds)
  case Nil
  then show ?case by simp
next
  case (Cons d ds)
  then show ?case
    by (auto simp: play_gtts_text_def Let_def split: if_splits prod.splits)
qed


lemma dispatch_headless_effects:
  "dispatch_headless ds inp s = (es, s') \<Longrightarrow>
     RunDetector \<notin> set es \<and> MotionSense \<notin> set es \<and> (\<forall>k b. SaveFrame k b \<notin> set es)
     \<and> MotionAlert \<notin> set (alerts_of es)"
  by (induction ds) (auto split: if_splits prod.splits)

lemma dispatch_headless_gate:
  "dispatch_headless ds inp s = (es, s') \<Longrightarrow>
     (motion_enabled s' \<longrightarrow> motion_enabled s)
     \<and> (motion_disabled_until s' = motion_disabled_until s
          \<or> motion_disabled_until s' = current_time inp + 20)
     \<and> (last_audio_time s' = last_audio_time s \<or> last_audio_time s' = alert_clock inp)"
  by (induction ds) (auto simp: play_gtts_text_def Let_def split: if_splits prod.splits)

lemma dispatch_headless_no_person:
  "\<forall>d \<in> set ds. label d \<noteq> ''person'' \<Longrightarrow> dispatch_headless ds inp s = (es, s') \<Longrightarrow>
     motion_enabled s' = motion_enabled s
     \<and> motion_disabled_until s' = motion_disabled_until s
     \<and> PersonAlert \<notin> set (alerts_of es)"
  by (induction ds) (auto simp: play_gtts_text_def Let_def split: if_splits prod.splits)

lemma dispatch_headless_person_first:
  "label d = ''person'' \<Longrightarrow>
   dispatch_headless (d # ds) inp s =
     ([PlayGtts PersonAlert 3 1.71 (fst (play_gtts_text PersonAlert 3 1.71 (alert_clock inp) s))],
      (snd (play_gtts_text PersonAlert 3 1.71 (alert_clock inp) s))
        \<lparr>motion_enabled := False, motion_disabled_until := current_time inp + 20\<rparr>)"
  by (simp split: prod.splits)





lemma dispatch_gui_fields:
  "dispatch_gui ds inp s = (es, s') \<Longrightarrow>
     frame_skip s' = frame_skip s \<and> frame_count s' = frame_count s
     \<and> last_saved_times s' = last_saved_times s
     \<and> persistent_detections s' = persistent_detections s"
  by (induction ds) (auto simp: play_gtts_text_def Let_def split: if_splits prod.splits)

lemma dispatch_gui_effects:
  "dispatch_gui ds inp s = (es, s') \<Longrightarrow>
     RunDetector \<notin> set es \<and> MotionSense \<notin> set es \<and> (\<forall>k b. SaveFrame k b \<notin> set es)
     \<and> MotionAlert \<notin> set (alerts_of es) \<and> AnimalAlert \<notin> set (alerts_of es)"
  by (induction ds) (auto split: if_splits prod.splits)

lemma dispatch_gui_gate:
  "dispatch_gui ds inp s = (es, s') \<Longrightarrow>
     (motion_enabled s' \<longrightarrow> motion_enabled s)
     \<and> (motion_disabled_until s' = motion_disabled_until s
          \<or> motion_disabled_until s' = current_time inp + 20)
     \<and> (last_audio_time s' = last_audio_time s \<or> last_audio_time s' = alert_clock inp)"
  by (induction ds) (auto simp: play_gtts_text_def Let_def split: if_splits prod.splits)

lemma dispatch_gui_no_person:
  "\<forall>d \<in> set ds. label d \<noteq> ''person'' \<Longrightarrow> dispatch_gui ds inp s = ([], s)"
  by (induction ds) auto

lemma dispatch_gui_person:
  "\<exists>d \<in> set ds. label d = ''person'' \<Longrightarrow>
   dispatch_gui ds inp s =
     ([PlayGtts PersonAlert 5 1.71 (fst (play_gtts_text PersonAlert 5 1.71 (alert_clock inp) s))],
      (snd (play_gtts_text PersonAlert 5 1.71 (alert_clock inp) s))
        \<lparr>motion_enabled := False, motion_disabled_until := current_time inp + 20\<rparr>)"
  by (induction ds) (auto simp: case_prod_beta)


lemma yolo_headless_skip:
  "frame_skip s \<noteq> 0 \<Longrightarrow> frame_count s mod frame_skip s \<noteq> 0 \<Longrightarrow>
   yolo_headless names inp s = ([], Inr s)"
  by (simp add: yolo_headless_def)

lemma yolo_headless_run:
  "frame_skip s \<noteq> 0 \<Longrightarrow> frame_count s mod frame_skip s = 0 \<Longrightarrow> results inp = Some rs \<Longrightarrow>
   yolo_headless names inp s =
     (RunDetector #
        fst (dispatch_headless (collect names rs) inp (s\<lparr>persistent_detections := collect names rs\<rparr>)),
      Inr (snd (dispatch_headless (collect names rs) inp
                  (s\<lparr>persistent_detections := collect names rs\<rparr>))))"
  by (simp add: yolo_headless_def Let_def case_prod_beta)

lemma yolo_headless_raise:
  "frame_skip s \<noteq> 0 \<Longrightarrow> frame_count s mod frame_skip s = 0 \<Longrightarrow> results inp = None \<Longrightarrow>
   yolo_headless names inp s = ([RunDetector], Inl DetectorRaised)"
  by (simp add: yolo_headless_def)

lemma yolo_gui_skip:
  "frame_skip s \<noteq> 0 \<Longrightarrow> frame_count s mod frame_skip s \<noteq> 0 \<Longrightarrow>
   yolo_gui names inp s = ([], Inr s)"
  by (simp add: yolo_gui_def)

lemma yolo_gui_run:
  "frame_skip s \<noteq> 0 \<Longrightarrow> frame_count s mod frame_skip s = 0 \<Longrightarrow> results inp = Some rs \<Longrightarrow>
   yolo_gui names inp s =
     (RunDetector #
        fst (dispatch_gui (collect names rs) inp (s\<lparr>persistent_detections := collect names rs\<rparr>)),
      Inr (snd (dispatch_gui (collect names rs) inp
                  (s\<lparr>persistent_detections := collect names rs\<rparr>))))"
  by (simp add: yolo_gui_def Let_def case_prod_beta)

lemma yolo_gui_raise:
  "frame_skip s \<noteq> 0 \<Longrightarrow> frame_count s mod frame_skip s = 0 \<Longrightarrow> results inp = None \<Longrightarrow>
   yolo_gui names inp s = ([RunDetector], Inl DetectorRaised)"
  by (simp add: yolo_gui_def)

lemma headless_frame_Inr:
  "yolo_headless names inp s = (es1, Inr s1) \<Longrightarrow>
   headless_frame names inp s =
     (es1 @ fst (person_save_headless inp s1)
          @ fst (motion_headless inp (snd (person_save_headless inp s1))),
      Inr ((snd (motion_headless inp (snd (person_save_headless inp s1))))
             \<lparr>frame_count := frame_count (snd (motion_headless inp (snd (person_save_headless inp s1)))) + 1\<rparr>))"
  by (simp add: headless_frame_def case_prod_beta)

lemma headless_frame_Inl:
  "yolo_headless names inp s = (es1, Inl e) \<Longrightarrow> headless_frame names inp s = (es1, Inl e)"
  by (simp add: headless_frame_def)

lemma gui_update_Inr:
  "yolo_gui names inp s = (es1, Inr s1) \<Longrightarrow>
   gui_update names (Some inp) s =
     (es1 @ fst (motion_gui inp s1)
          @ fst (draw_gui (persistent_detections (snd (motion_gui inp s1))) [] inp (snd (motion_gui inp s1))),
      Inr ((snd (draw_gui (persistent_detections (snd (motion_gui inp s1))) [] inp (snd (motion_gui inp s1))))
             \<lparr>frame_count := frame_count (snd (draw_gui (persistent_detections (snd (motion_gui inp s1))) [] inp (snd (motion_gui inp s1)))) + 1\<rparr>))"
  by (simp add: gui_update_def case_prod_beta)

lemma gui_update_Inl:
  "yolo_gui names inp s = (es1, Inl e) \<Longrightarrow> gui_update names (Some inp) s = (es1, Inl e)"
  by (simp add: gui_update_def)

lemma person_save_headless_facts:
  "frame_skip (snd (person_save_headless inp s)) = frame_skip s"
  "frame_count (snd (person_save_headless inp s)) = frame_count s"
  "motion_enabled (snd (person_save_headless inp s)) = motion_enabled s"
  "motion_disabled_until (snd (person_save_headless inp s)) = motion_disabled_until s"
  "persistent_detections (snd (person_save_headless inp s)) = persistent_detections s"
  "last_audio_time (snd (person_save_headless inp s)) = last_audio_time s"
  "last_saved_times (snd (person_save_headless inp s)) Motion = last_saved_times s Motion"
  "RunDetector \<notin> set (fst (person_save_headless inp s))"
  "MotionSense \<notin> set (fst (person_save_headless inp s))"
  "SaveFrame Motion b \<notin> set (fst (person_save_headless inp s))"
  "alerts_of (fst (person_save_headless inp s)) = []"
  by (simp_all add: person_save_headless_def)

lemma motion_headless_facts:
  "frame_skip (snd (motion_headless inp s)) = frame_skip s"
  "frame_count (snd (motion_headless inp s)) = frame_count s"
  "motion_disabled_until (snd (motion_headless inp s)) = motion_disabled_until s"
  "persistent_detections (snd (motion_headless inp s)) = persistent_detections s"
  "last_saved_times (snd (motion_headless inp s)) Person = last_saved_times s Person"
  "RunDetector \<notin> set (fst (motion_headless inp s))"
  "SaveFrame Person b \<notin> set (fst (motion_headless inp s))"
  "PersonAlert \<notin> set (alerts_of (fst (motion_headless inp s)))"
  "AnimalAlert \<notin> set (alerts_of (fst (motion_headless inp s)))"
  by (simp_all add: motion_headless_def play_gtts_text_def Let_def case_prod_beta)

lemma motion_headless_disabled:
  "\<not> motion_enabled s \<Longrightarrow>
   motion_headless inp s =
     ([], if current_time inp \<ge> motion_disabled_until s then s\<lparr>motion_enabled := True\<rparr> else s)"
  by (simp add: motion_headless_def)

lemma motion_headless_enabled:
  "motion_enabled s \<Longrightarrow> MotionSense \<in> set (fst (motion_headless inp s))
     \<and> motion_enabled (snd (motion_headless inp s))"
  by (simp add: motion_headless_def play_gtts_text_def Let_def case_prod_beta)

lemma motion_gui_facts:
  "frame_skip (snd (motion_gui inp s)) = frame_skip s"
  "frame_count (snd (motion_gui inp s)) = frame_count s"
  "motion_disabled_until (snd (motion_gui inp s)) = motion_disabled_until s"
  "persistent_detections (snd (motion_gui inp s)) = persistent_detections s"
  "last_saved_times (snd (motion_gui inp s)) Person = last_saved_times s Person"
  "RunDetector \<notin> set (fst (motion_gui inp s))"
  "SaveFrame Person b \<notin> set (fst (motion_gui inp s))"
  "PersonAlert \<notin> set (alerts_of (fst (motion_gui inp s)))"
  "AnimalAlert \<notin> set (alerts_of (fst (motion_gui inp s)))"
  by (simp_all add: motion_gui_def play_gtts_text_def Let_def case_prod_beta)

lemma motion_gui_disabled:
  "\<not> motion_enabled s \<Longrightarrow>
   motion_gui inp s =
     ([], if current_time inp \<ge> motion_disabled_until s then s\<lparr>motion_enabled := True\<rparr> else s)"
  by (simp add: motion_gui_def)

lemma motion_gui_enabled:
  "motion_enabled s \<Longrightarrow> MotionSense \<in> set (fst (motion_gui inp s))
     \<and> motion_enabled (snd (motion_gui inp s))"
  by (simp add: motion_gui_def play_gtts_text_def Let_def case_prod_beta)

lemma draw_gui_facts:
  "frame_skip (snd (draw_gui ds drawn inp s)) = frame_skip s
   \<and> frame_count (snd (draw_gui ds drawn inp s)) = frame_count s
   \<and> motion_enabled (snd (draw_gui ds drawn inp s)) = motion_enabled s
   \<and> motion_disabled_until (snd (draw_gui ds drawn inp s)) = motion_disabled_until s
   \<and> persistent_detections (snd (draw_gui ds drawn inp s)) = persistent_detections s
   \<and> last_audio_time (snd (draw_gui ds drawn inp s)) = last_audio_time s
   \<and> last_saved_times (snd (draw_gui ds drawn inp s)) Motion = last_saved_times s Motion
   \<and> RunDetector \<notin> set (fst (draw_gui ds drawn inp s))
   \<and> MotionSense \<notin> set (fst (draw_gui ds drawn inp s))
   \<and> (\<forall>b. SaveFrame Motion b \<notin> set (fst (draw_gui ds drawn inp s)))
   \<and> alerts_of (fst (draw_gui ds drawn inp s)) = []"
  by (induction ds drawn inp s rule: draw_gui.induct) (simp_all add: case_prod_beta)


lemma alerts_of_append: "alerts_of (xs @ ys) = alerts_of xs @ alerts_of ys"
  by (induction xs rule: alerts_of.induct) simp_all

lemma headless_frame_skipped:
  assumes "frame_skip s \<noteq> 0" "frame_count s mod frame_skip s \<noteq> 0"
  shows "\<exists>s'. headless_frame names inp s =
           (fst (person_save_headless inp s) @ fst (motion_headless inp (snd (person_save_headless inp s))),
            Inr s')
         \<and> s' = (snd (motion_headless inp (snd (person_save_headless inp s))))
                  \<lparr>frame_count := frame_count s + 1\<rparr>"
  using headless_frame_Inr [OF yolo_headless_skip [OF assms]]
  by (simp add: motion_headless_facts person_save_headless_facts)

lemma gui_update_skipped:
  assumes "frame_skip s \<noteq> 0" "frame_count s mod frame_skip s \<noteq> 0"
  shows "\<exists>s'. gui_update names (Some inp) s =
           (fst (motion_gui inp s)
              @ fst (draw_gui (persistent_detections s) [] inp (snd (motion_gui inp s))),
            Inr s')
         \<and> s' = (snd (draw_gui (persistent_detections s) [] inp (snd (motion_gui inp s))))
                  \<lparr>frame_count := frame_count s + 1\<rparr>"
  using gui_update_Inr [OF yolo_gui_skip [OF assms]]
  by (simp add: motion_gui_facts draw_gui_facts)

lemma headless_frame_detector_iff:
  assumes "frame_skip s \<noteq> 0"
  shows "RunDetector \<in> set (fst (headless_frame names inp s)) \<longleftrightarrow> frame_count s mod frame_skip s = 0"
proof (cases "frame_count s mod frame_skip s = 0")
  case False
  with assms headless_frame_skipped [of s names inp] show ?thesis
    by (auto simp: motion_headless_facts person_save_headless_facts)
next
  case True
  show ?thesis
  proof (cases "results inp")
    case None
    with True assms show ?thesis
      by (simp add: headless_frame_Inl [OF yolo_headless_raise])
  next
    case (Some rs)
    with True assms show ?thesis
      by (simp add: headless_frame_Inr [OF yolo_headless_run])
  qed
qed

lemma gui_update_detector_iff:
  assumes "frame_skip s \<noteq> 0"
  shows "RunDetector \<in> set (fst (gui_update names (Some inp) s)) \<longleftrightarrow> frame_count s mod frame_skip s = 0"
proof (cases "frame_count s mod frame_skip s = 0")
  case False
  with assms gui_update_skipped [of s names inp] show ?thesis
    by (auto simp: motion_gui_facts draw_gui_facts)
next
  case True
  show ?thesis
  proof (cases "results inp")
    case None
    with True assms show ?thesis
      by (simp add: gui_update_Inl [OF yolo_gui_raise])
  next
    case (Some rs)
    with True assms show ?thesis
      by (simp add: gui_update_Inr [OF yolo_gui_run])
  qed
qed

lemma headless_frame_skipped_cache:
  assumes "frame_skip s \<noteq> 0" "frame_count s mod frame_skip s \<noteq> 0"
  shows "\<exists>es s'. headless_frame names inp s = (es, Inr s') \<and> RunDetector \<notin> set es
           \<and> persistent_detections s' = persistent_detections s
           \<and> frame_count s' = frame_count s + 1 \<and> frame_skip s' = frame_skip s"
  using headless_frame_skipped [OF assms, of names inp]
  by (auto simp: motion_headless_facts person_save_headless_facts)

lemma gui_update_skipped_cache:
  assumes "frame_skip s \<noteq> 0" "frame_count s mod frame_skip s \<noteq> 0"
  shows "\<exists>es s'. gui_update names (Some inp) s = (es, Inr s') \<and> RunDetector \<notin> set es
           \<and> persistent_detections s' = persistent_detections s
           \<and> frame_count s' = frame_count s + 1 \<and> frame_skip s' = frame_skip s"
  using gui_update_skipped [OF assms, of names inp]
  by (auto simp: motion_gui_facts draw_gui_facts)

lemma run_headless_skipped:
  "frame_skip s \<noteq> 0 \<Longrightarrow>
   \<forall>i < length inps. (frame_count s + int i) mod frame_skip s \<noteq> 0 \<Longrightarrow>
   \<exists>es s'. run_headless names (map Some inps) s = (Running, es, s')
      \<and> RunDetector \<notin> set es \<and> persistent_detections s' = persistent_detections s
      \<and> frame_count s' = frame_count s + int (length inps)"
proof (induction inps arbitrary: s)
  case Nil
  then show ?case by simp
next
  case (Cons inp inps)
  from Cons.prems(2) [rule_format, of 0] have "frame_count s mod frame_skip s \<noteq> 0"
    by simp
  from headless_frame_skipped_cache [OF Cons.prems(1) this, of names inp]
  obtain es1 s1 where f: "headless_frame names inp s = (es1, Inr s1)" "RunDetector \<notin> set es1"
    "persistent_detections s1 = persistent_detections s"
    "frame_count s1 = frame_count s + 1" "frame_skip s1 = frame_skip s"
    by blast
  have "\<forall>i < length inps. (frame_count s1 + int i) mod frame_skip s1 \<noteq> 0"
  proof (intro allI impI)
    fix i assume "i < length inps"
    then have "(frame_count s + int (Suc i)) mod frame_skip s \<noteq> 0"
      using Cons.prems(2) [rule_format, of "Suc i"] by simp
    then show "(frame_count s1 + int i) mod frame_skip s1 \<noteq> 0"
      using f(4,5) by (simp add: add.commute add.left_commute)
  qed
  from Cons.IH [OF _ this] Cons.prems(1) f(5)
  obtain es2 s2 where r: "run_headless names (map Some inps) s1 = (Running, es2, s2)"
    "RunDetector \<notin> set es2" "persistent_detections s2 = persistent_detections s1"
    "frame_count s2 = frame_count s1 + int (length inps)"
    by auto
  show ?case using f r by simp
qed

lemma run_gui_skipped:
  "frame_skip s \<noteq> 0 \<Longrightarrow>
   \<forall>i < length inps. (frame_count s + int i) mod frame_skip s \<noteq> 0 \<Longrightarrow>
   \<exists>es s'. run_gui names (map Some inps) s = (Running, es, s')
      \<and> RunDetector \<notin> set es \<and> persistent_detections s' = persistent_detections s
      \<and> frame_count s' = frame_count s + int (length inps)"
proof (induction inps arbitrary: s)
  case Nil
  then show ?case by simp
next
  case (Cons inp inps)
  from Cons.prems(2) [rule_format, of 0] have "frame_count s mod frame_skip s \<noteq> 0"
    by simp
  from gui_update_skipped_cache [OF Cons.prems(1) this, of names inp]
  obtain es1 s1 where f: "gui_update names (Some inp) s = (es1, Inr s1)" "RunDetector \<notin> set es1"
    "persistent_detections s1 = persistent_detections s"
    "frame_count s1 = frame_count s + 1" "frame_skip s1 = frame_skip s"
    by blast
  have "\<forall>i < length inps. (frame_count s1 + int i) mod frame_skip s1 \<noteq> 0"
  proof (intro allI impI)
    fix i assume "i < length inps"
    then have "(frame_count s + int (Suc i)) mod frame_skip s \<noteq> 0"
      using Cons.prems(2) [rule_format, of "Suc i"] by simp
    then show "(frame_count s1 + int i) mod frame_skip s1 \<noteq> 0"
      using f(4,5) by (simp add: add.commute add.left_commute)
  qed
  from Cons.IH [OF _ this] Cons.prems(1) f(5)
  obtain es2 s2 where r: "run_gui names (map Some inps) s1 = (Running, es2, s2)"
    "RunDetector \<notin> set es2" "persistent_detections s2 = persistent_detections s1"
    "frame_count s2 = frame_count s1 + int (length inps)"
    by auto
  show ?case using f r by simp
qed

lemma motion_headless_sense:
  "(MotionSense \<in> set (fst (motion_headless inp s)) \<longleftrightarrow> motion_enabled s)
   \<and> (motion_enabled (snd (motion_headless inp s)) \<longleftrightarrow>
        motion_enabled s \<or> motion_disabled_until s \<le> current_time inp)"
  by (simp add: motion_headless_def play_gtts_text_def Let_def case_prod_beta)

lemma motion_gui_sense:
  "(MotionSense \<in> set (fst (motion_gui inp s)) \<longleftrightarrow> motion_enabled s)
   \<and> (motion_enabled (snd (motion_gui inp s)) \<longleftrightarrow>
        motion_enabled s \<or> motion_disabled_until s \<le> current_time inp)"
  by (simp add: motion_gui_def play_gtts_text_def Let_def case_prod_beta)

lemma dispatch_headless_fst:
  "RunDetector \<notin> set (fst (dispatch_headless ds inp s))"
  "MotionSense \<notin> set (fst (dispatch_headless ds inp s))"
  "SaveFrame k b \<notin> set (fst (dispatch_headless ds inp s))"
  "MotionAlert \<notin> set (alerts_of (fst (dispatch_headless ds inp s)))"
  using dispatch_headless_effects [OF prod.collapse [symmetric], of ds inp s] by simp_all

lemma dispatch_gui_fst:
  "RunDetector \<notin> set (fst (dispatch_gui ds inp s))"
  "MotionSense \<notin> set (fst (dispatch_gui ds inp s))"
  "SaveFrame k b \<notin> set (fst (dispatch_gui ds inp s))"
  "MotionAlert \<notin> set (alerts_of (fst (dispatch_gui ds inp s)))"
  "AnimalAlert \<notin> set (alerts_of (fst (dispatch_gui ds inp s)))"
  using dispatch_gui_effects [OF prod.collapse [symmetric], of ds inp s] by simp_all

lemma dispatch_headless_snd:
  "frame_skip (snd (dispatch_headless ds inp s)) = frame_skip s"
  "frame_count (snd (dispatch_headless ds inp s)) = frame_count s"
  "last_saved_times (snd (dispatch_headless ds inp s)) = last_saved_times s"
  "persistent_detections (snd (dispatch_headless ds inp s)) = persistent_detections s"
  using dispatch_headless_fields [OF prod.collapse [symmetric], of ds inp s] by simp_all

lemma dispatch_gui_snd:
  "frame_skip (snd (dispatch_gui ds inp s)) = frame_skip s"
  "frame_count (snd (dispatch_gui ds inp s)) = frame_count s"
  "last_saved_times (snd (dispatch_gui ds inp s)) = last_saved_times s"
  "persistent_detections (snd (dispatch_gui ds inp s)) = persistent_detections s"
  using dispatch_gui_fields [OF prod.collapse [symmetric], of ds inp s] by simp_all

lemma yolo_headless_no_sense: "MotionSense \<notin> set (fst (yolo_headless names inp s))"
  by (simp add: yolo_headless_def Let_def case_prod_beta dispatch_headless_fst
        split: option.splits)

lemma yolo_gui_no_sense: "MotionSense \<notin> set (fst (yolo_gui names inp s))"
  by (simp add: yolo_gui_def Let_def case_prod_beta dispatch_gui_fst split: option.splits)

lemma headless_frame_gate:
  assumes "yolo_headless names inp s = (es1, Inr s1)"
  shows "\<exists>es s'. headless_frame names inp s = (es, Inr s')
           \<and> (MotionSense \<in> set es \<longleftrightarrow> motion_enabled s1)
           \<and> motion_disabled_until s' = motion_disabled_until s1
           \<and> (motion_enabled s' \<longleftrightarrow> motion_enabled s1 \<or> motion_disabled_until s1 \<le> current_time inp)"
  using yolo_headless_no_sense [of names inp s] assms
  by (simp add: headless_frame_Inr [OF assms] motion_headless_sense motion_headless_facts
        person_save_headless_facts)

lemma gui_update_gate:
  assumes "yolo_gui names inp s = (es1, Inr s1)"
  shows "\<exists>es s'. gui_update names (Some inp) s = (es, Inr s')
           \<and> (MotionSense \<in> set es \<longleftrightarrow> motion_enabled s1)
           \<and> motion_disabled_until s' = motion_disabled_until s1
           \<and> (motion_enabled s' \<longleftrightarrow> motion_enabled s1 \<or> motion_disabled_until s1 \<le> current_time inp)"
  using yolo_gui_no_sense [of names inp s] assms
  by (simp add: gui_update_Inr [OF assms] motion_gui_sense motion_gui_facts draw_gui_facts)

lemma person_free_Some:
  "person_free names inp \<Longrightarrow> results inp = Some rs \<Longrightarrow> \<forall>d \<in> set (collect names rs). label d \<noteq> ''person''"
  by (simp add: person_free_def list_ex_iff)

lemma yolo_headless_person_free:
  assumes "person_free names inp" "yolo_headless names inp s = (es1, Inr s1)"
  shows "motion_enabled s1 = motion_enabled s \<and> motion_disabled_until s1 = motion_disabled_until s"
proof (cases "frame_count s mod frame_skip s = 0")
  case False
  with assms(2) show ?thesis by (auto simp: yolo_headless_def split: if_splits)
next
  case True
  from assms(2) have nz: "frame_skip s \<noteq> 0" by (auto simp: yolo_headless_def split: if_splits)
  from assms(2) True nz obtain rs where rs: "results inp = Some rs"
    by (cases "results inp") (auto simp: yolo_headless_def)
  let ?s0 = "s\<lparr>persistent_detections := collect names rs\<rparr>"
  from assms(2) have "s1 = snd (dispatch_headless (collect names rs) inp ?s0)"
    by (simp add: yolo_headless_run [OF nz True rs])
  with dispatch_headless_no_person [OF person_free_Some [OF assms(1) rs],
      of inp ?s0 "fst (dispatch_headless (collect names rs) inp ?s0)" s1]
  show ?thesis by simp
qed

lemma yolo_gui_person_free:
  assumes "person_free names inp" "yolo_gui names inp s = (es1, Inr s1)"
  shows "motion_enabled s1 = motion_enabled s \<and> motion_disabled_until s1 = motion_disabled_until s"
proof (cases "frame_count s mod frame_skip s = 0")
  case False
  with assms(2) show ?thesis by (auto simp: yolo_gui_def split: if_splits)
next
  case True
  from assms(2) have nz: "frame_skip s \<noteq> 0" by (auto simp: yolo_gui_def split: if_splits)
  from assms(2) True nz obtain rs where rs: "results inp = Some rs"
    by (cases "results inp") (auto simp: yolo_gui_def)
  let ?s0 = "s\<lparr>persistent_detections := collect names rs\<rparr>"
  from assms(2) have "s1 = snd (dispatch_gui (collect names rs) inp ?s0)"
    by (simp add: yolo_gui_run [OF nz True rs])
  with dispatch_gui_no_person [OF person_free_Some [OF assms(1) rs], of inp ?s0]
  show ?thesis by simp
qed

lemma headless_frame_hold:
  assumes "\<not> motion_enabled s" "current_time inp < motion_disabled_until s" "person_free names inp"
  shows "MotionSense \<notin> set (fst (headless_frame names inp s))
         \<and> (\<forall>s'. snd (headless_frame names inp s) = Inr s' \<longrightarrow>
               \<not> motion_enabled s' \<and> motion_disabled_until s' = motion_disabled_until s)"
proof (cases "snd (yolo_headless names inp s)")
  case (Inl e)
  then have "yolo_headless names inp s = (fst (yolo_headless names inp s), Inl e)"
    by (simp add: prod_eq_iff)
  from headless_frame_Inl [OF this] yolo_headless_no_sense [of names inp s]
  show ?thesis by simp
next
  case (Inr s1)
  then have y: "yolo_headless names inp s = (fst (yolo_headless names inp s), Inr s1)"
    by (simp add: prod_eq_iff)
  from yolo_headless_person_free [OF assms(3) y] headless_frame_gate [OF y] assms(1,2)
  show ?thesis by auto
qed

lemma headless_frame_release:
  assumes "\<not> motion_enabled s" "motion_disabled_until s \<le> current_time inp" "person_free names inp"
    and "headless_frame names inp s = (es, Inr s')"
  shows "MotionSense \<notin> set es \<and> motion_enabled s'"
proof (cases "snd (yolo_headless names inp s)")
  case (Inl e)
  then have "yolo_headless names inp s = (fst (yolo_headless names inp s), Inl e)"
    by (simp add: prod_eq_iff)
  from headless_frame_Inl [OF this] assms(4) show ?thesis by simp
next
  case (Inr s1)
  then have y: "yolo_headless names inp s = (fst (yolo_headless names inp s), Inr s1)"
    by (simp add: prod_eq_iff)
  from yolo_headless_person_free [OF assms(3) y] headless_frame_gate [OF y] assms(1,2,4)
  show ?thesis by auto
qed

lemma gui_update_hold:
  assumes "\<not> motion_enabled s" "current_time inp < motion_disabled_until s" "person_free names inp"
  shows "MotionSense \<notin> set (fst (gui_update names (Some inp) s))
         \<and> (\<forall>s'. snd (gui_update names (Some inp) s) = Inr s' \<longrightarrow>
               \<not> motion_enabled s' \<and> motion_disabled_until s' = motion_disabled_until s)"
proof (cases "snd (yolo_gui names inp s)")
  case (Inl e)
  then have "yolo_gui names inp s = (fst (yolo_gui names inp s), Inl e)"
    by (simp add: prod_eq_iff)
  from gui_update_Inl [OF this] yolo_gui_no_sense [of names inp s]
  show ?thesis by simp
next
  case (Inr s1)
  then have y: "yolo_gui names inp s = (fst (yolo_gui names inp s), Inr s1)"
    by (simp add: prod_eq_iff)
  from yolo_gui_person_free [OF assms(3) y] gui_update_gate [OF y] assms(1,2)
  show ?thesis by auto
qed

lemma gui_update_release:
  assumes "\<not> motion_enabled s" "motion_disabled_until s \<le> current_time inp" "person_free names inp"
    and "gui_update names (Some inp) s = (es, Inr s')"
  shows "MotionSense \<notin> set es \<and> motion_enabled s'"
proof (cases "snd (yolo_gui names inp s)")
  case (Inl e)
  then have "yolo_gui names inp s = (fst (yolo_gui names inp s), Inl e)"
    by (simp add: prod_eq_iff)
  from gui_update_Inl [OF this] assms(4) show ?thesis by simp
next
  case (Inr s1)
  then have y: "yolo_gui names inp s = (fst (yolo_gui names inp s), Inr s1)"
    by (simp add: prod_eq_iff)
  from yolo_gui_person_free [OF assms(3) y] gui_update_gate [OF y] assms(1,2,4)
  show ?thesis by auto
qed

lemma headless_frame_person:
  assumes "frame_skip s \<noteq> 0" "frame_count s mod frame_skip s = 0" "results inp = Some rs"
    and "collect names rs = d # ds" "label d = ''person''"
  shows "\<exists>es s'. headless_frame names inp s = (es, Inr s') \<and> MotionSense \<notin> set es
           \<and> \<not> motion_enabled s' \<and> motion_disabled_until s' = current_time inp + 20"
proof -
  define s1 where
    "s1 = snd (dispatch_headless (collect names rs) inp (s\<lparr>persistent_detections := collect names rs\<rparr>))"
  have s1: "\<not> motion_enabled s1" "motion_disabled_until s1 = current_time inp + 20"
    unfolding s1_def assms(4) dispatch_headless_person_first [OF assms(5)] by simp_all
  have y: "yolo_headless names inp s =
      (RunDetector # fst (dispatch_headless (collect names rs) inp
                            (s\<lparr>persistent_detections := collect names rs\<rparr>)), Inr s1)"
    unfolding s1_def by (rule yolo_headless_run [OF assms(1,2,3)])
  from headless_frame_gate [OF y] s1 show ?thesis by auto
qed

lemma gui_update_person:
  assumes "frame_skip s \<noteq> 0" "frame_count s mod frame_skip s = 0" "results inp = Some rs"
    and "\<exists>d \<in> set (collect names rs). label d = ''person''"
  shows "\<exists>es s'. gui_update names (Some inp) s = (es, Inr s') \<and> MotionSense \<notin> set es
           \<and> \<not> motion_enabled s' \<and> motion_disabled_until s' = current_time inp + 20"
proof -
  define s1 where
    "s1 = snd (dispatch_gui (collect names rs) inp (s\<lparr>persistent_detections := collect names rs\<rparr>))"
  have s1: "\<not> motion_enabled s1" "motion_disabled_until s1 = current_time inp + 20"
    unfolding s1_def dispatch_gui_person [OF assms(4)] by simp_all
  have y: "yolo_gui names inp s =
      (RunDetector # fst (dispatch_gui (collect names rs) inp
                            (s\<lparr>persistent_detections := collect names rs\<rparr>)), Inr s1)"
    unfolding s1_def by (rule yolo_gui_run [OF assms(1,2,3)])
  from gui_update_gate [OF y] s1 show ?thesis by auto
qed

lemma run_headless_hold:
  "\<not> motion_enabled s \<Longrightarrow>
   \<forall>i. Some i \<in> set rds \<longrightarrow> current_time i < motion_disabled_until s \<and> person_free names i \<Longrightarrow>
   MotionSense \<notin> set (fst (snd (run_headless names rds s)))
   \<and> \<not> motion_enabled (snd (snd (run_headless names rds s)))
   \<and> motion_disabled_until (snd (snd (run_headless names rds s))) = motion_disabled_until s"
proof (induction rds arbitrary: s)
  case Nil
  then show ?case by simp
next
  case (Cons rd rds)
  show ?case
  proof (cases rd)
    case None
    with Cons.prems show ?thesis by simp
  next
    case (Some inp)
    with Cons.prems have h: "current_time inp < motion_disabled_until s" "person_free names inp"
      by simp_all
    note f = headless_frame_hold [OF Cons.prems(1) h]
    show ?thesis
    proof (cases "snd (headless_frame names inp s)")
      case (Inl e)
      with f Some Cons.prems(1) show ?thesis
        by (simp add: case_prod_beta split: sum.splits)
    next
      case (Inr s1)
      with f have s1: "\<not> motion_enabled s1" "motion_disabled_until s1 = motion_disabled_until s"
        by simp_all
      from Cons.prems(2) s1(2)
      have "\<forall>i. Some i \<in> set rds \<longrightarrow> current_time i < motion_disabled_until s1 \<and> person_free names i"
        by simp
      from Cons.IH [OF s1(1) this] f Some Inr s1(2) show ?thesis
        by (simp add: case_prod_beta split: sum.splits)
    qed
  qed
qed

lemma run_gui_hold:
  "\<not> motion_enabled s \<Longrightarrow>
   \<forall>i. Some i \<in> set rds \<longrightarrow> current_time i < motion_disabled_until s \<and> person_free names i \<Longrightarrow>
   MotionSense \<notin> set (fst (snd (run_gui names rds s)))
   \<and> \<not> motion_enabled (snd (snd (run_gui names rds s)))
   \<and> motion_disabled_until (snd (snd (run_gui names rds s))) = motion_disabled_until s"
proof (induction rds arbitrary: s)
  case Nil
  then show ?case by simp
next
  case (Cons rd rds)
  show ?case
  proof (cases rd)
    case None
    from Cons.IH [OF Cons.prems(1)] Cons.prems(2) None show ?thesis
      by (simp add: gui_update_def case_prod_beta)
  next
    case (Some inp)
    with Cons.prems have h: "current_time inp < motion_disabled_until s" "person_free names inp"
      by simp_all
    note f = gui_update_hold [OF Cons.prems(1) h]
    show ?thesis
    proof (cases "snd (gui_update names (Some inp) s)")
      case (Inl e)
      with f Some Cons.prems(1) show ?thesis
        by (simp add: case_prod_beta split: sum.splits)
    next
      case (Inr s1)
      with f have s1: "\<not> motion_enabled s1" "motion_disabled_until s1 = motion_disabled_until s"
        by simp_all
      from Cons.prems(2) s1(2)
      have "\<forall>i. Some i \<in> set rds \<longrightarrow> current_time i < motion_disabled_until s1 \<and> person_free names i"
        by simp
      from Cons.IH [OF s1(1) this] f Some Inr s1(2) show ?thesis
        by (simp add: case_prod_beta split: sum.splits)
    qed
  qed
qed

section \<open>Facts about alerts and saves\<close>

lemma dispatched_append: "dispatched (xs @ ys) = dispatched xs @ dispatched ys"
  by (simp add: dispatched_def alerts_of_append)


lemma motion_headless_audio:
  "dispatched (fst (motion_headless inp s)) = []"
  "last_audio_time (snd (motion_headless inp s)) \<noteq> last_audio_time s \<Longrightarrow>
     motion_enabled s \<and> significant_motion inp \<and> 10 \<le> motion_clock inp - last_audio_time s
     \<and> last_audio_time (snd (motion_headless inp s)) = motion_clock inp"
  by (simp_all add: motion_headless_def play_gtts_text_def dispatched_def Let_def case_prod_beta
        split: if_splits)

lemma motion_gui_audio:
  "dispatched (fst (motion_gui inp s)) = []"
  "last_audio_time (snd (motion_gui inp s)) \<noteq> last_audio_time s \<Longrightarrow>
     motion_enabled s \<and> significant_motion inp \<and> 10 \<le> motion_clock inp - last_audio_time s
     \<and> last_audio_time (snd (motion_gui inp s)) = motion_clock inp"
  by (simp_all add: motion_gui_def play_gtts_text_def dispatched_def Let_def case_prod_beta
        split: if_splits)

lemma person_save_headless_dispatched: "dispatched (fst (person_save_headless inp s)) = []"
  by (simp add: dispatched_def person_save_headless_facts)

lemma draw_gui_dispatched: "dispatched (fst (draw_gui ds drawn inp s)) = []"
  by (simp add: dispatched_def draw_gui_facts)

lemma headless_frame_skipped_quiet:
  assumes "frame_skip s \<noteq> 0" "frame_count s mod frame_skip s \<noteq> 0"
  shows "\<exists>es s'. headless_frame names inp s = (es, Inr s')
           \<and> RunDetector \<notin> set es \<and> dispatched es = []
           \<and> motion_disabled_until s' = motion_disabled_until s
           \<and> (motion_enabled s \<longrightarrow> motion_enabled s')
           \<and> persistent_detections s' = persistent_detections s
           \<and> (last_audio_time s' \<noteq> last_audio_time s \<longrightarrow>
                MotionSense \<in> set es \<and> significant_motion inp
                \<and> 10 \<le> motion_clock inp - last_audio_time s
                \<and> last_audio_time s' = motion_clock inp)"
proof -
  let ?s4 = "snd (person_save_headless inp s)"
  from headless_frame_skipped [OF assms, of names inp]
  have f: "headless_frame names inp s =
      (fst (person_save_headless inp s) @ fst (motion_headless inp ?s4),
       Inr ((snd (motion_headless inp ?s4))\<lparr>frame_count := frame_count s + 1\<rparr>))"
    by simp
  have a: "last_audio_time (snd (motion_headless inp ?s4)) \<noteq> last_audio_time s \<longrightarrow>
        MotionSense \<in> set (fst (motion_headless inp ?s4)) \<and> significant_motion inp
        \<and> 10 \<le> motion_clock inp - last_audio_time s
        \<and> last_audio_time (snd (motion_headless inp ?s4)) = motion_clock inp"
    using motion_headless_audio(2) [of inp ?s4] motion_headless_sense [of inp ?s4]
    by (auto simp: person_save_headless_facts)
  have e: "motion_enabled s \<longrightarrow> motion_enabled (snd (motion_headless inp ?s4))"
    using motion_headless_sense [of inp ?s4] by (simp add: person_save_headless_facts)
  from a e show ?thesis
    by (auto simp: f dispatched_append person_save_headless_dispatched motion_headless_audio(1)
          person_save_headless_facts motion_headless_facts)
qed

lemma gui_update_skipped_quiet:
  assumes "frame_skip s \<noteq> 0" "frame_count s mod frame_skip s \<noteq> 0"
  shows "\<exists>es s'. gui_update names (Some inp) s = (es, Inr s')
           \<and> RunDetector \<notin> set es \<and> dispatched es = []
           \<and> motion_disabled_until s' = motion_disabled_until s
           \<and> (motion_enabled s \<longrightarrow> motion_enabled s')
           \<and> persistent_detections s' = persistent_detections s
           \<and> (last_audio_time s' \<noteq> last_audio_time s \<longrightarrow>
                MotionSense \<in> set es \<and> significant_motion inp
                \<and> 10 \<le> motion_clock inp - last_audio_time s
                \<and> last_audio_time s' = motion_clock inp)"
proof -
  let ?s4 = "snd (motion_gui inp s)"
  let ?d = "draw_gui (persistent_detections s) [] inp ?s4"
  from gui_update_skipped [OF assms, of names inp]
  have f: "gui_update names (Some inp) s =
      (fst (motion_gui inp s) @ fst ?d, Inr ((snd ?d)\<lparr>frame_count := frame_count s + 1\<rparr>))"
    by simp
  have a: "last_audio_time ?s4 \<noteq> last_audio_time s \<longrightarrow>
        MotionSense \<in> set (fst (motion_gui inp s)) \<and> significant_motion inp
        \<and> 10 \<le> motion_clock inp - last_audio_time s
        \<and> last_audio_time ?s4 = motion_clock inp"
    using motion_gui_audio(2) [of inp s] motion_gui_sense [of inp s] by auto
  have e: "motion_enabled s \<longrightarrow> motion_enabled ?s4"
    using motion_gui_sense [of inp s] by simp
  from a e show ?thesis
    by (auto simp: f dispatched_append draw_gui_dispatched motion_gui_audio(1)
          draw_gui_facts motion_gui_facts)
qed




























lemma yolo_headless_saves:
  assumes "yolo_headless names inp s = (es1, Inr s1)"
  shows "last_saved_times s1 = last_saved_times s" "SaveFrame k b \<notin> set es1"
    "MotionAlert \<notin> set (alerts_of es1)"
  using assms
  by (auto simp: yolo_headless_def Let_def case_prod_beta dispatch_headless_fst
        dispatch_headless_snd split: if_splits option.splits)

lemma yolo_gui_saves:
  assumes "yolo_gui names inp s = (es1, Inr s1)"
  shows "last_saved_times s1 = last_saved_times s" "SaveFrame k b \<notin> set es1"
    "MotionAlert \<notin> set (alerts_of es1)"
  using assms
  by (auto simp: yolo_gui_def Let_def case_prod_beta dispatch_gui_fst
        dispatch_gui_snd split: if_splits option.splits)

lemma motion_headless_save:
  assumes "motion_enabled s" "significant_motion inp"
  shows "if 0.2 \<le> current_time inp - last_saved_times s Motion
         then \<exists>ops. fst (motion_headless inp s) =
                  [MotionSense, SaveFrame Motion (persistent_detections s),
                   PlayGtts MotionAlert 10 2.22 ops]
                \<and> last_saved_times (snd (motion_headless inp s)) Motion = current_time inp
                \<and> (ops \<noteq> [] \<longrightarrow> last_audio_time (snd (motion_headless inp s)) = motion_clock inp)
                \<and> (ops = [] \<longrightarrow> motion_clock inp - last_audio_time (snd (motion_headless inp s)) < 10)
         else motion_headless inp s = ([MotionSense], s)"
  using assms by (auto simp: motion_headless_def play_gtts_text_def Let_def)

lemma motion_gui_save:
  assumes "motion_enabled s" "significant_motion inp"
  shows "\<exists>ops. fst (motion_gui inp s) =
                  [MotionSense, SaveFrame Motion [], PlayGtts MotionAlert 10 1.61 ops]
                \<and> last_saved_times (snd (motion_gui inp s)) Motion = current_time inp
                \<and> (ops \<noteq> [] \<longrightarrow> last_audio_time (snd (motion_gui inp s)) = motion_clock inp)
                \<and> (ops = [] \<longrightarrow> motion_clock inp - last_audio_time (snd (motion_gui inp s)) < 10)"
  using assms by (auto simp: motion_gui_def play_gtts_text_def Let_def)

lemma motion_gui_raw: "SaveFrame Motion b \<in> set (fst (motion_gui inp s)) \<Longrightarrow> b = []"
  by (auto simp: motion_gui_def case_prod_beta split: if_splits)

lemma headless_frame_motion_save:
  assumes "MotionSense \<in> set (fst (headless_frame names inp s))" "significant_motion inp"
  shows "\<exists>es s'. headless_frame names inp s = (es, Inr s')
          \<and> (if 0.2 \<le> current_time inp - last_saved_times s Motion
              then \<exists>pre ops. es = pre @ [MotionSense, SaveFrame Motion (persistent_detections s'),
                                          PlayGtts MotionAlert 10 2.22 ops]
                     \<and> MotionSense \<notin> set pre \<and> (\<forall>b. SaveFrame Motion b \<notin> set pre)
                     \<and> last_saved_times s' Motion = current_time inp
                     \<and> (ops \<noteq> [] \<longrightarrow> last_audio_time s' = motion_clock inp)
                     \<and> (ops = [] \<longrightarrow> motion_clock inp - last_audio_time s' < 10)
              else (\<forall>b. SaveFrame Motion b \<notin> set es) \<and> MotionAlert \<notin> set (alerts_of es)
                     \<and> last_saved_times s' Motion = last_saved_times s Motion)"
proof (cases "snd (yolo_headless names inp s)")
  case (Inl e)
  then have y: "yolo_headless names inp s = (fst (yolo_headless names inp s), Inl e)"
    by (simp add: prod_eq_iff)
  from headless_frame_Inl [OF y] assms(1) yolo_headless_no_sense [of names inp s]
  show ?thesis by simp
next
  case (Inr s1)
  then have y: "yolo_headless names inp s = (fst (yolo_headless names inp s), Inr s1)"
    by (simp add: prod_eq_iff)
  define es1 where "es1 = fst (yolo_headless names inp s)"
  define es4 where "es4 = fst (person_save_headless inp s1)"
  define s4 where "s4 = snd (person_save_headless inp s1)"
  note f = headless_frame_Inr [OF y, folded es1_def es4_def s4_def]
  have pre: "MotionSense \<notin> set (es1 @ es4)" "\<And>b. SaveFrame Motion b \<notin> set (es1 @ es4)"
    "MotionAlert \<notin> set (alerts_of (es1 @ es4))"
    using yolo_headless_no_sense [of names inp s] yolo_headless_saves(2,3) [OF y]
    by (simp_all add: es1_def es4_def person_save_headless_facts alerts_of_append)
  from assms(1) pre(1) have "MotionSense \<in> set (fst (motion_headless inp s4))"
    by (simp add: f)
  then have en: "motion_enabled s4" by (simp add: motion_headless_sense)
  have t: "last_saved_times s4 Motion = last_saved_times s Motion"
    by (simp add: s4_def person_save_headless_facts yolo_headless_saves(1) [OF y])
  show ?thesis
  proof (cases "0.2 \<le> current_time inp - last_saved_times s Motion")
    case True
    with motion_headless_save [OF en assms(2)] t obtain ops where
      m: "fst (motion_headless inp s4) =
            [MotionSense, SaveFrame Motion (persistent_detections s4),
             PlayGtts MotionAlert 10 2.22 ops]"
        "last_saved_times (snd (motion_headless inp s4)) Motion = current_time inp"
        "ops \<noteq> [] \<longrightarrow> last_audio_time (snd (motion_headless inp s4)) = motion_clock inp"
        "ops = [] \<longrightarrow> motion_clock inp - last_audio_time (snd (motion_headless inp s4)) < 10"
      by auto
    have "fst (headless_frame names inp s) =
            (es1 @ es4) @ [MotionSense,
               SaveFrame Motion (persistent_detections (snd (motion_headless inp s4))),
               PlayGtts MotionAlert 10 2.22 ops]"
      by (simp add: f m(1) motion_headless_facts)
    with pre m(2,3,4) True show ?thesis
      by (auto simp: f)
  next
    case False
    with motion_headless_save [OF en assms(2)] t
    have m: "motion_headless inp s4 = ([MotionSense], s4)" by auto
    from pre False t show ?thesis
      by (simp add: f m alerts_of_append)
  qed
qed

lemma gui_update_motion_save:
  assumes "MotionSense \<in> set (fst (gui_update names (Some inp) s))" "significant_motion inp"
  shows "\<exists>es s'. gui_update names (Some inp) s = (es, Inr s')
          \<and> (\<forall>b. SaveFrame Motion b \<in> set es \<longrightarrow> b = [])
          \<and> (0.2 \<le> current_time inp - last_saved_times s Motion \<longrightarrow>
               (\<exists>pre ops post. es = pre @ [MotionSense, SaveFrame Motion [],
                                            PlayGtts MotionAlert 10 1.61 ops] @ post
                  \<and> MotionSense \<notin> set pre \<and> MotionSense \<notin> set post
                  \<and> last_saved_times s' Motion = current_time inp
                  \<and> (ops \<noteq> [] \<longrightarrow> last_audio_time s' = motion_clock inp)
                  \<and> (ops = [] \<longrightarrow> motion_clock inp - last_audio_time s' < 10)))"
proof (cases "snd (yolo_gui names inp s)")
  case (Inl e)
  then have y: "yolo_gui names inp s = (fst (yolo_gui names inp s), Inl e)"
    by (simp add: prod_eq_iff)
  from gui_update_Inl [OF y] assms(1) yolo_gui_no_sense [of names inp s]
  show ?thesis by simp
next
  case (Inr s1)
  then have y: "yolo_gui names inp s = (fst (yolo_gui names inp s), Inr s1)"
    by (simp add: prod_eq_iff)
  define es1 where "es1 = fst (yolo_gui names inp s)"
  define s4 where "s4 = snd (motion_gui inp s1)"
  let ?d = "draw_gui (persistent_detections s4) [] inp s4"
  note f = gui_update_Inr [OF y, folded es1_def s4_def]
  have pre: "MotionSense \<notin> set es1" "\<And>b. SaveFrame Motion b \<notin> set es1"
    using yolo_gui_no_sense [of names inp s] yolo_gui_saves(2) [OF y]
    by (simp_all add: es1_def)
  have post: "MotionSense \<notin> set (fst ?d)" "\<And>b. SaveFrame Motion b \<notin> set (fst ?d)"
    "last_saved_times (snd ?d) Motion = last_saved_times s4 Motion"
    "last_audio_time (snd ?d) = last_audio_time s4"
    by (simp_all add: draw_gui_facts)
  from assms(1) pre(1) post(1) have "MotionSense \<in> set (fst (motion_gui inp s1))"
    by (simp add: f)
  then have en: "motion_enabled s1" by (simp add: motion_gui_sense)
  from motion_gui_save [OF en assms(2)] obtain ops where
    m: "fst (motion_gui inp s1) =
          [MotionSense, SaveFrame Motion [], PlayGtts MotionAlert 10 1.61 ops]"
       "last_saved_times s4 Motion = current_time inp"
       "ops \<noteq> [] \<longrightarrow> last_audio_time s4 = motion_clock inp"
       "ops = [] \<longrightarrow> motion_clock inp - last_audio_time s4 < 10"
    unfolding s4_def by auto
  have raw: "\<forall>b. SaveFrame Motion b \<in> set (fst (gui_update names (Some inp) s)) \<longrightarrow> b = []"
    using pre(2) post(2) by (auto simp: f m(1))
  have e: "fst (gui_update names (Some inp) s) =
          es1 @ [MotionSense, SaveFrame Motion [], PlayGtts MotionAlert 10 1.61 ops] @ fst ?d"
    by (simp add: f m(1))
  have "\<exists>pre ops post. fst (gui_update names (Some inp) s) =
            pre @ [MotionSense, SaveFrame Motion [], PlayGtts MotionAlert 10 1.61 ops] @ post
          \<and> MotionSense \<notin> set pre \<and> MotionSense \<notin> set post
          \<and> last_saved_times (snd ?d) Motion = current_time inp
          \<and> (ops \<noteq> [] \<longrightarrow> last_audio_time (snd ?d) = motion_clock inp)
          \<and> (ops = [] \<longrightarrow> motion_clock inp - last_audio_time (snd ?d) < 10)"
    using e pre(1) post(1) post(3,4) m(2,3,4) by metis
  with raw show ?thesis
    by (simp add: f)
qed

lemma headless_frame_resume:
  assumes "motion_enabled s" "person_free names inp"
    and "headless_frame names inp s = (es, Inr s')"
  shows "MotionSense \<in> set es \<and> motion_enabled s'"
proof (cases "snd (yolo_headless names inp s)")
  case (Inl e)
  then have "yolo_headless names inp s = (fst (yolo_headless names inp s), Inl e)"
    by (simp add: prod_eq_iff)
  from headless_frame_Inl [OF this] assms(3) show ?thesis by simp
next
  case (Inr s1)
  then have y: "yolo_headless names inp s = (fst (yolo_headless names inp s), Inr s1)"
    by (simp add: prod_eq_iff)
  from yolo_headless_person_free [OF assms(2) y] headless_frame_gate [OF y] assms(1,3)
  show ?thesis by auto
qed

lemma gui_update_resume:
  assumes "motion_enabled s" "person_free names inp"
    and "gui_update names (Some inp) s = (es, Inr s')"
  shows "MotionSense \<in> set es \<and> motion_enabled s'"
proof (cases "snd (yolo_gui names inp s)")
  case (Inl e)
  then have "yolo_gui names inp s = (fst (yolo_gui names inp s), Inl e)"
    by (simp add: prod_eq_iff)
  from gui_update_Inl [OF this] assms(3) show ?thesis by simp
next
  case (Inr s1)
  then have y: "yolo_gui names inp s = (fst (yolo_gui names inp s), Inr s1)"
    by (simp add: prod_eq_iff)
  from yolo_gui_person_free [OF assms(2) y] gui_update_gate [OF y] assms(1,3)
  show ?thesis by auto
qed

lemma motion_headless_throttle:
  assumes "motion_enabled s" "significant_motion inp"
  shows "((\<exists>b. SaveFrame Motion b \<in> set (fst (motion_headless inp s))) \<longleftrightarrow>
            0.2 \<le> current_time inp - last_fired (SaveCat Motion) s)
         \<and> ((\<exists>b. SaveFrame Motion b \<in> set (fst (motion_headless inp s))) \<longrightarrow>
              last_fired (SaveCat Motion) (snd (motion_headless inp s)) = current_time inp)
         \<and> ((\<forall>b. SaveFrame Motion b \<notin> set (fst (motion_headless inp s))) \<longrightarrow>
              snd (motion_headless inp s) = s)"
  using assms by (auto simp: motion_headless_def play_gtts_text_def Let_def)

lemma draw_gui_blocked:
  "\<not> 0.2 \<le> current_time inp - last_saved_times s Person \<Longrightarrow> draw_gui ds drawn inp s = ([], s)"
  by (induction ds arbitrary: drawn) simp_all

lemma draw_gui_throttle:
  assumes "persistent_detections s \<noteq> []"
  shows "draw_gui (d # ds) drawn inp s =
           (if 0.2 \<le> current_time inp - last_fired (SaveCat Person) s
            then ([SaveFrame Person (drawn @ [d])],
                  s\<lparr>last_saved_times := (last_saved_times s)(Person := current_time inp)\<rparr>)
            else ([], s))"
proof (cases "0.2 \<le> current_time inp - last_saved_times s Person")
  case True
  have "draw_gui ds (drawn @ [d]) inp
          (s\<lparr>last_saved_times := (last_saved_times s)(Person := current_time inp)\<rparr>) =
        ([], s\<lparr>last_saved_times := (last_saved_times s)(Person := current_time inp)\<rparr>)"
    by (rule draw_gui_blocked) simp
  with True assms show ?thesis by simp
next
  case False
  from draw_gui_blocked [OF False, of "d # ds" drawn] False show ?thesis by simp
qed

section \<open>The examples evaluated\<close>

lemma collect_examples:
  "collect coco [[person_box]] = [person_det]"
  "collect coco [[cat_box]] = [cat_det]"
  "collect coco [[cat_box, person_box]] = [cat_det, person_det]"
  "collect coco [[person_box, cat_box]] = [person_det, cat_det]"
  by (simp_all add: collect_def box_entries_def coco_def cat_box_def person_box_def cat_det_def
        person_det_def py_int_def allowed_labels_def)

lemma example_labels: "label person_det = ''person''" "label cat_det = ''cat''"
  by (simp_all add: person_det_def cat_det_def)

lemma example_frames:
  "significant_motion (fr t r [600])"
  "MotionSense \<in> set (fst (headless_frame coco (fr 100 (Some [[cat_box]]) [600]) initial_state))"
  "MotionSense \<in> set (fst (headless_frame coco (fr 100 (Some [[cat_box]]) [600])
                              (initial_state\<lparr>last_saved_times := (\<lambda>k. 0)(Motion := 99.9)\<rparr>)))"
  "MotionSense \<in> set (fst (gui_update coco (Some (fr 100 (Some [[cat_box]]) [600])) initial_state))"
  by (simp_all add: headless_frame_def yolo_headless_def person_save_headless_def motion_headless_def
        gui_update_def yolo_gui_def motion_gui_def
        play_gtts_text_def significant_motion_def fr_def initial_state_def Let_def
        collect_examples example_labels case_prod_beta)


section \<open>The claims of the specification\<close>

subsection \<open>Throttles\<close>

text \<open>C6. The claim is what every check of a throttle but one does: the audio routine and
  the save of the person frame in the headless loop (lemma \<open>throttle_check_and_update\<close>
  below), the save of the motion frame in the headless loop (lemma
  \<open>motion_headless_throttle\<close>) and the save of the person frame in the window loop (lemma
  \<open>draw_gui_throttle\<close>). The save of the motion frame in the window loop is the one that
  makes no check, although the comment above it (GUI_webcam.py line 172) announces it:
  from the initial state, the frame at time 100 saves a motion frame, and the frame at
  time 100.1 saves again and moves the time of the last motion save to 100.1, with less
  than 0.2 passed. On the same reads the headless loop saves once and keeps 100.\<close>

theorem C6_window_motion_save_unthrottled:
  "(100.1::real) - 100 < 0.2
   \<and> (case run_gui coco [Some (fr 100 (Some []) [600]), Some (fr 100.1 None [600])] initial_state of
        (st, es, s') \<Rightarrow>
          st = Running
          \<and> filter (\<lambda>e. e = SaveFrame Motion []) es = [SaveFrame Motion [], SaveFrame Motion []]
          \<and> last_fired (SaveCat Motion) s' = 100.1)
   \<and> (case run_headless coco [Some (fr 100 (Some []) [600]), Some (fr 100.1 None [600])]
             initial_state of
        (st, es, s') \<Rightarrow>
          st = Running
          \<and> filter (\<lambda>e. e = SaveFrame Motion []) es = [SaveFrame Motion []]
          \<and> last_fired (SaveCat Motion) s' = 100)"
  by (simp add: headless_frame_def yolo_headless_def person_save_headless_def motion_headless_def
        gui_update_def yolo_gui_def motion_gui_def collect_def
        play_gtts_text_def significant_motion_def fr_def initial_state_def Let_def)

text \<open>The check of the audio throttle passes exactly when \<open>now - last_fired \<ge> cooldown\<close>;
  when it passes the only change of the state is \<open>last_audio_time := now\<close>, when it does not
  the state is unchanged. The same holds for the save of the person frame in the headless
  loop (lines 167 to 169), whose check stands behind the test that the cache is not empty.\<close>

lemma throttle_check_and_update:
  "(fst (play_gtts_text a cd sp now s) \<noteq> [] \<longleftrightarrow> cd \<le> now - last_fired (AlertCat a) s)
   \<and> (fst (play_gtts_text a cd sp now s) \<noteq> [] \<longrightarrow>
        snd (play_gtts_text a cd sp now s) = s\<lparr>last_audio_time := now\<rparr>
        \<and> last_fired (AlertCat a) (snd (play_gtts_text a cd sp now s)) = now)
   \<and> (fst (play_gtts_text a cd sp now s) = [] \<longrightarrow> snd (play_gtts_text a cd sp now s) = s)
   \<and> (persistent_detections s \<noteq> [] \<longrightarrow>
        (fst (person_save_headless inp s) \<noteq> [] \<longleftrightarrow>
           0.2 \<le> current_time inp - last_fired (SaveCat Person) s)
        \<and> (fst (person_save_headless inp s) \<noteq> [] \<longrightarrow>
             snd (person_save_headless inp s) =
               s\<lparr>last_saved_times := (last_saved_times s)(Person := current_time inp)\<rparr>
             \<and> last_fired (SaveCat Person) (snd (person_save_headless inp s)) = current_time inp)
        \<and> (fst (person_save_headless inp s) = [] \<longrightarrow> snd (person_save_headless inp s) = s))"
  by (simp add: play_gtts_text_def person_save_headless_def Let_def)

text \<open>The checks at concrete inputs: an alert that passes, one that is stopped, and a person
  save that passes.\<close>

lemma throttle_check_and_update_example:
  "fst (play_gtts_text PersonAlert 3 1.71 100 initial_state) \<noteq> []
   \<and> last_fired (AlertCat PersonAlert) (snd (play_gtts_text PersonAlert 3 1.71 100 initial_state)) = 100
   \<and> fst (play_gtts_text PersonAlert 3 1.71 2 initial_state) = []
   \<and> snd (play_gtts_text PersonAlert 3 1.71 2 initial_state) = initial_state
   \<and> persistent_detections (initial_state\<lparr>persistent_detections := [person_det]\<rparr>) \<noteq> []
   \<and> fst (person_save_headless
             \<lparr>current_time = 100, results = None, contour_areas = [], alert_clock = 100, motion_clock = 100\<rparr>
             (initial_state\<lparr>persistent_detections := [person_det]\<rparr>)) \<noteq> []
   \<and> last_fired (SaveCat Person) (snd (person_save_headless
             \<lparr>current_time = 100, results = None, contour_areas = [], alert_clock = 100, motion_clock = 100\<rparr>
             (initial_state\<lparr>persistent_detections := [person_det]\<rparr>))) = 100"
  using throttle_check_and_update [of PersonAlert 3 "1.71" 100 initial_state
          "\<lparr>current_time = 100, results = None, contour_areas = [], alert_clock = 100, motion_clock = 100\<rparr>"]
        throttle_check_and_update [of PersonAlert 3 "1.71" 2 "initial_state\<lparr>persistent_detections := [person_det]\<rparr>"
          "\<lparr>current_time = 100, results = None, contour_areas = [], alert_clock = 100, motion_clock = 100\<rparr>"]
        throttle_check_and_update [of PersonAlert 3 "1.71" 2 initial_state
          "\<lparr>current_time = 100, results = None, contour_areas = [], alert_clock = 100, motion_clock = 100\<rparr>"]
  by (simp add: initial_state_def play_gtts_text_def person_save_headless_def Let_def)

text \<open>C1 as stated fails: a motion alert that passes at time 100 moves the time the person
  alert is compared with from 0 to 100, and the person alert at time 101 is stopped, though
  no person alert was ever played.\<close>

theorem C1_counterexample:
  "fst (play_gtts_text MotionAlert 10 2.22 100 initial_state) \<noteq> []
   \<and> AlertCat PersonAlert \<noteq> AlertCat MotionAlert
   \<and> last_fired (AlertCat PersonAlert) (snd (play_gtts_text MotionAlert 10 2.22 100 initial_state))
       \<noteq> last_fired (AlertCat PersonAlert) initial_state
   \<and> (3::real) \<le> 101 - last_fired (AlertCat PersonAlert) initial_state
   \<and> fst (play_gtts_text PersonAlert 3 1.71 101
             (snd (play_gtts_text MotionAlert 10 2.22 100 initial_state))) = []"
  by (simp add: play_gtts_text_def initial_state_def Let_def)

text \<open>C1, amended. All audio alerts share one time, \<^verbatim>\<open>last_audio_time\<close>: a play that passes
  sets it to \<open>now\<close> for every alert category and leaves both save times as they were; a
  play that is stopped changes nothing. The save times are apart from each other and from
  the audio time: the person save changes the time of no other category, and the motion
  branch leaves the time of the person save as it was.\<close>

theorem C1_shared_audio_throttle:
  "(\<forall>k. last_fired (SaveCat k) (snd (play_gtts_text a cd sp now s)) = last_fired (SaveCat k) s)
   \<and> (fst (play_gtts_text a cd sp now s) \<noteq> [] \<longrightarrow>
        (\<forall>b. last_fired (AlertCat b) (snd (play_gtts_text a cd sp now s)) = now))
   \<and> (fst (play_gtts_text a cd sp now s) = [] \<longrightarrow> snd (play_gtts_text a cd sp now s) = s)
   \<and> (\<forall>c. c \<noteq> SaveCat Person \<longrightarrow>
          last_fired c (snd (person_save_headless inp s)) = last_fired c s)
   \<and> last_fired (SaveCat Person) (snd (motion_headless inp s)) = last_fired (SaveCat Person) s
   \<and> last_fired (SaveCat Person) (snd (motion_gui inp s)) = last_fired (SaveCat Person) s"
proof -
  have "last_fired c (snd (person_save_headless inp s)) = last_fired c s" if "c \<noteq> SaveCat Person" for c
  proof (cases c)
    case (SaveCat k)
    with that show ?thesis by (cases k) (simp_all add: person_save_headless_facts)
  next
    case (AlertCat b)
    then show ?thesis by (simp add: person_save_headless_facts)
  qed
  then show ?thesis
    by (simp add: play_fields motion_headless_facts motion_gui_facts)
       (simp add: play_gtts_text_def Let_def)
qed

text \<open>C1 amended, at concrete inputs.\<close>

theorem C1_shared_audio_throttle_witness:
  "fst (play_gtts_text MotionAlert 10 2.22 100 initial_state) \<noteq> []
   \<and> last_fired (AlertCat PersonAlert) (snd (play_gtts_text MotionAlert 10 2.22 100 initial_state)) = 100
   \<and> last_fired (SaveCat Motion) (snd (play_gtts_text MotionAlert 10 2.22 100 initial_state)) = 0
   \<and> fst (play_gtts_text MotionAlert 10 2.22 4 initial_state) = []
   \<and> snd (play_gtts_text MotionAlert 10 2.22 4 initial_state) = initial_state
   \<and> SaveCat Motion \<noteq> SaveCat Person
   \<and> last_fired (SaveCat Motion) (snd (person_save_headless
         \<lparr>current_time = 100, results = None, contour_areas = [], alert_clock = 100, motion_clock = 100\<rparr>
         (initial_state\<lparr>persistent_detections := [person_det]\<rparr>))) = 0"
  using C1_shared_audio_throttle [of MotionAlert 10 "2.22" 100 initial_state
          "\<lparr>current_time = 100, results = None, contour_areas = [], alert_clock = 100, motion_clock = 100\<rparr>"]
        C1_shared_audio_throttle [of MotionAlert 10 "2.22" 4 initial_state
          "\<lparr>current_time = 100, results = None, contour_areas = [], alert_clock = 100, motion_clock = 100\<rparr>"]
        C1_shared_audio_throttle [of MotionAlert 10 "2.22" 4 "initial_state\<lparr>persistent_detections := [person_det]\<rparr>"
          "\<lparr>current_time = 100, results = None, contour_areas = [], alert_clock = 100, motion_clock = 100\<rparr>"]
  by (simp add: initial_state_def play_gtts_text_def person_save_headless_def Let_def)

text \<open>C8 as stated fails: two calls that both pass use the same two file names.\<close>

theorem C8_counterexample:
  "ops_files (fst (play_gtts_text PersonAlert 3 1.71 100 initial_state))
     \<inter> ops_files (fst (play_gtts_text MotionAlert 10 2.22 200
                         (snd (play_gtts_text PersonAlert 3 1.71 100 initial_state))))
   = {''detection_sound_original.mp3'', ''detection_sound_adjusted.mp3''}
   \<and> ''detection_sound_original.mp3''
        \<in> ops_files (fst (play_gtts_text PersonAlert 3 1.71 100 initial_state))
          \<inter> ops_files (fst (play_gtts_text MotionAlert 10 2.22 200
                         (snd (play_gtts_text PersonAlert 3 1.71 100 initial_state))))"
  by (auto simp add: play_gtts_text_def initial_state_def Let_def ops_files_def)

text \<open>C8, amended. Every call that passes the cooldown uses the two fixed names
  \<^verbatim>\<open>detection_sound_original.mp3\<close> and \<^verbatim>\<open>detection_sound_adjusted.mp3\<close>; a call that is
  stopped touches no file.\<close>

theorem C8_fixed_temp_names:
  "ops_files (fst (play_gtts_text a cd sp now s)) =
     (if now - last_audio_time s < cd then {}
      else {''detection_sound_original.mp3'', ''detection_sound_adjusted.mp3''})"
  by (auto simp add: play_gtts_text_def Let_def ops_files_def)

text \<open>C8 amended, at concrete inputs.\<close>

theorem C8_fixed_temp_names_witness:
  "ops_files (fst (play_gtts_text AnimalAlert 3 1.71 50 initial_state)) =
     {''detection_sound_original.mp3'', ''detection_sound_adjusted.mp3''}
   \<and> ops_files (fst (play_gtts_text AnimalAlert 3 1.71 1 initial_state)) = {}"
  using C8_fixed_temp_names [of AnimalAlert 3 "1.71" 50 initial_state]
        C8_fixed_temp_names [of AnimalAlert 3 "1.71" 1 initial_state]
  by (simp add: initial_state_def)

subsection \<open>The cadence of the detector\<close>

text \<open>C2. For every skip factor of at least 1, a frame calls the detector exactly when
  \<^verbatim>\<open>frame_count mod frame_skip = 0\<close>, in both front ends; every other frame returns and
  leaves \<^verbatim>\<open>persistent_detections\<close> as it was; and over any stretch of frames none of
  which is a detector frame the loop keeps running, never calls the detector, and ends
  with the cache it started with.\<close>

theorem C2_detector_cadence:
  assumes "1 \<le> frame_skip s"
  shows
    "(RunDetector \<in> set (fst (headless_frame names inp s)) \<longleftrightarrow> frame_count s mod frame_skip s = 0)
     \<and> (RunDetector \<in> set (fst (gui_update names (Some inp) s)) \<longleftrightarrow> frame_count s mod frame_skip s = 0)
     \<and> (frame_count s mod frame_skip s \<noteq> 0 \<longrightarrow>
          (\<exists>es s'. headless_frame names inp s = (es, Inr s')
             \<and> persistent_detections s' = persistent_detections s)
          \<and> (\<exists>es s'. gui_update names (Some inp) s = (es, Inr s')
             \<and> persistent_detections s' = persistent_detections s))
     \<and> ((\<forall>i < length inps. (frame_count s + int i) mod frame_skip s \<noteq> 0) \<longrightarrow>
          (\<exists>es s'. run_headless names (map Some inps) s = (Running, es, s')
             \<and> RunDetector \<notin> set es \<and> persistent_detections s' = persistent_detections s)
          \<and> (\<exists>es s'. run_gui names (map Some inps) s = (Running, es, s')
             \<and> RunDetector \<notin> set es \<and> persistent_detections s' = persistent_detections s))"
proof -
  from assms have nz: "frame_skip s \<noteq> 0" by simp
  have a: "RunDetector \<in> set (fst (headless_frame names inp s)) \<longleftrightarrow> frame_count s mod frame_skip s = 0"
    by (rule headless_frame_detector_iff [OF nz])
  have b: "RunDetector \<in> set (fst (gui_update names (Some inp) s)) \<longleftrightarrow> frame_count s mod frame_skip s = 0"
    by (rule gui_update_detector_iff [OF nz])
  have c: "\<exists>es s'. headless_frame names inp s = (es, Inr s')
             \<and> persistent_detections s' = persistent_detections s"
    if "frame_count s mod frame_skip s \<noteq> 0"
    using headless_frame_skipped_cache [OF nz that, of names inp] by blast
  have d: "\<exists>es s'. gui_update names (Some inp) s = (es, Inr s')
             \<and> persistent_detections s' = persistent_detections s"
    if "frame_count s mod frame_skip s \<noteq> 0"
    using gui_update_skipped_cache [OF nz that, of names inp] by blast
  have e: "\<exists>es s'. run_headless names (map Some inps) s = (Running, es, s')
             \<and> RunDetector \<notin> set es \<and> persistent_detections s' = persistent_detections s"
    if "\<forall>i < length inps. (frame_count s + int i) mod frame_skip s \<noteq> 0"
    using run_headless_skipped [OF nz that, of names] by blast
  have f: "\<exists>es s'. run_gui names (map Some inps) s = (Running, es, s')
             \<and> RunDetector \<notin> set es \<and> persistent_detections s' = persistent_detections s"
    if "\<forall>i < length inps. (frame_count s + int i) mod frame_skip s \<noteq> 0"
    using run_gui_skipped [OF nz that, of names] by blast
  from a b c d e f show ?thesis by blast
qed

text \<open>C2, at concrete inputs: the first frame of a run calls the detector; the frame after
  it, and the two frames after it, do not, and keep the cached person.\<close>

theorem C2_detector_cadence_witness:
  "1 \<le> frame_skip initial_state
   \<and> RunDetector \<in> set (fst (headless_frame coco (fr 100 (Some [[person_box]]) [600]) initial_state))
   \<and> RunDetector \<in> set (fst (gui_update coco (Some (fr 100 (Some [[person_box]]) [600])) initial_state))
   \<and> RunDetector \<notin> set (fst (headless_frame coco (fr 101 (Some []) [600])
                                (initial_state\<lparr>frame_count := 1, persistent_detections := [person_det]\<rparr>)))
   \<and> (\<exists>es s'. headless_frame coco (fr 101 (Some []) [600])
                  (initial_state\<lparr>frame_count := 1, persistent_detections := [person_det]\<rparr>) = (es, Inr s')
          \<and> persistent_detections s' = [person_det])
   \<and> (\<exists>es s'. gui_update coco (Some (fr 101 (Some []) [600]))
                  (initial_state\<lparr>frame_count := 1, persistent_detections := [person_det]\<rparr>) = (es, Inr s')
          \<and> persistent_detections s' = [person_det])
   \<and> (\<exists>es s'. run_headless coco (map Some [fr 101 (Some []) [600], fr 102 (Some []) []])
                  (initial_state\<lparr>frame_count := 1, persistent_detections := [person_det]\<rparr>) = (Running, es, s')
          \<and> RunDetector \<notin> set es \<and> persistent_detections s' = [person_det])"
  using C2_detector_cadence [of initial_state coco "fr 100 (Some [[person_box]]) [600]" "[]"]
        C2_detector_cadence [of "initial_state\<lparr>frame_count := 1, persistent_detections := [person_det]\<rparr>"
          coco "fr 101 (Some []) [600]" "[fr 101 (Some []) [600], fr 102 (Some []) []]"]
  by (simp add: initial_state_def less_Suc_eq)

subsection \<open>The motion gate\<close>

text \<open>C3. Both loops announce that a detected person disables motion sensing (headless.py
  line 124, GUI_webcam.py line 151), and the window loop does so for a person anywhere in
  the cache. The headless loop misses it when a cat or dog stands before the person: on the
  detector frame at time 100 whose batch is a cat followed by a person, the person is
  cached, but the loop over the cache ends at the cat; the gate stays enabled and motion is
  sensed on that very frame. On the same frame the window loop disables the gate until 120
  and senses no motion.\<close>

theorem C3_headless_gate_stays_enabled:
  "list_ex (\<lambda>d. label d = ''person'') (collect coco [[cat_box, person_box]])
   \<and> MotionSense \<in> set (fst (headless_frame coco (fr 100 (Some [[cat_box, person_box]]) [600]) initial_state))
   \<and> (case snd (headless_frame coco (fr 100 (Some [[cat_box, person_box]]) [600]) initial_state) of
        Inl e \<Rightarrow> False
      | Inr s' \<Rightarrow> person_det \<in> set (persistent_detections s') \<and> motion_enabled s'
                  \<and> motion_disabled_until s' = 0)
   \<and> MotionSense \<notin> set (fst (gui_update coco (Some (fr 100 (Some [[cat_box, person_box]]) [600]))
                                 initial_state))
   \<and> (case snd (gui_update coco (Some (fr 100 (Some [[cat_box, person_box]]) [600])) initial_state) of
        Inl e \<Rightarrow> False
      | Inr s' \<Rightarrow> person_det \<in> set (persistent_detections s') \<and> \<not> motion_enabled s'
                  \<and> motion_disabled_until s' = 120)"
  by (simp add: headless_frame_def yolo_headless_def person_save_headless_def motion_headless_def
        gui_update_def yolo_gui_def motion_gui_def
        play_gtts_text_def significant_motion_def fr_def initial_state_def Let_def
        collect_examples example_labels)

text \<open>The window where the person branch is reached. On a detector frame at time \<open>T\<close> whose
  first cached entry is a person (headless loop), or some cached entry of which is a person
  (window loop), the frame returns with the gate disabled until \<open>T + 20\<close> and without
  sensing motion; over any frames read after it at times before \<open>T + 20\<close> on which the
  detector delivers no person the gate stays disabled until \<open>T + 20\<close> and motion is never
  sensed; and a frame at a time of at least \<open>T + 20\<close> with no person, if it returns,
  re-enables the gate. Motion is not yet sensed on that frame, the check stands in the
  \<^verbatim>\<open>else\<close> branch; it is sensed on every frame after it that returns, until the next
  person (lemmas \<open>headless_frame_resume\<close> and \<open>gui_update_resume\<close>).\<close>

lemma gate_suppression_window:
  assumes det: "frame_skip s \<noteq> 0" "frame_count s mod frame_skip s = 0" "results inp = Some rs"
    and quiet: "\<forall>i. Some i \<in> set rds \<longrightarrow> current_time i < current_time inp + 20 \<and> person_free names i"
    and late: "current_time inp + 20 \<le> current_time inp'" "person_free names inp'"
  shows
    "((\<exists>d ds. collect names rs = d # ds \<and> label d = ''person'') \<longrightarrow>
        (\<exists>es1 s1. headless_frame names inp s = (es1, Inr s1) \<and> MotionSense \<notin> set es1
                \<and> \<not> motion_enabled s1 \<and> motion_disabled_until s1 = current_time inp + 20
                \<and> (\<exists>st es2 s2. run_headless names rds s1 = (st, es2, s2) \<and> MotionSense \<notin> set es2
                      \<and> \<not> motion_enabled s2 \<and> motion_disabled_until s2 = current_time inp + 20
                      \<and> (\<forall>es3 s3. headless_frame names inp' s2 = (es3, Inr s3) \<longrightarrow>
                            MotionSense \<notin> set es3 \<and> motion_enabled s3))))
     \<and> ((\<exists>d \<in> set (collect names rs). label d = ''person'') \<longrightarrow>
        (\<exists>es1 s1. gui_update names (Some inp) s = (es1, Inr s1) \<and> MotionSense \<notin> set es1
                \<and> \<not> motion_enabled s1 \<and> motion_disabled_until s1 = current_time inp + 20
                \<and> (\<exists>st es2 s2. run_gui names rds s1 = (st, es2, s2) \<and> MotionSense \<notin> set es2
                      \<and> \<not> motion_enabled s2 \<and> motion_disabled_until s2 = current_time inp + 20
                      \<and> (\<forall>es3 s3. gui_update names (Some inp') s2 = (es3, Inr s3) \<longrightarrow>
                            MotionSense \<notin> set es3 \<and> motion_enabled s3))))"
proof (intro conjI impI)
  assume hit: "\<exists>d ds. collect names rs = d # ds \<and> label d = ''person''"
  then obtain d ds where c: "collect names rs = d # ds" "label d = ''person''" by blast
  from headless_frame_person [OF det c]
  have "\<exists>es s'. headless_frame names inp s = (es, Inr s') \<and> MotionSense \<notin> set es
           \<and> \<not> motion_enabled s' \<and> motion_disabled_until s' = current_time inp + 20" .
  then obtain es1 s1 where f: "headless_frame names inp s = (es1, Inr s1)" "MotionSense \<notin> set es1"
    "\<not> motion_enabled s1" "motion_disabled_until s1 = current_time inp + 20"
    by blast
  from quiet f(4)
  have q: "\<forall>i. Some i \<in> set rds \<longrightarrow> current_time i < motion_disabled_until s1 \<and> person_free names i"
    by simp
  obtain st es2 s2 where run: "run_headless names rds s1 = (st, es2, s2)"
    by (cases "run_headless names rds s1") auto
  with run_headless_hold [OF f(3) q] f(4)
  have r: "MotionSense \<notin> set es2" "\<not> motion_enabled s2"
    "motion_disabled_until s2 = current_time inp + 20"
    by simp_all
  from r(3) late(1) have l: "motion_disabled_until s2 \<le> current_time inp'" by simp
  have "\<forall>es3 s3. headless_frame names inp' s2 = (es3, Inr s3) \<longrightarrow>
          MotionSense \<notin> set es3 \<and> motion_enabled s3"
    using headless_frame_release [OF r(2) l late(2)] by blast
  with f run r show "(\<exists>es1 s1. headless_frame names inp s = (es1, Inr s1) \<and> MotionSense \<notin> set es1
              \<and> \<not> motion_enabled s1 \<and> motion_disabled_until s1 = current_time inp + 20
              \<and> (\<exists>st es2 s2. run_headless names rds s1 = (st, es2, s2) \<and> MotionSense \<notin> set es2
                    \<and> \<not> motion_enabled s2 \<and> motion_disabled_until s2 = current_time inp + 20
                    \<and> (\<forall>es3 s3. headless_frame names inp' s2 = (es3, Inr s3) \<longrightarrow>
                          MotionSense \<notin> set es3 \<and> motion_enabled s3)))" by blast
next
  assume hit: "\<exists>d \<in> set (collect names rs). label d = ''person''"
  from gui_update_person [OF det hit]
  have "\<exists>es s'. gui_update names (Some inp) s = (es, Inr s') \<and> MotionSense \<notin> set es
           \<and> \<not> motion_enabled s' \<and> motion_disabled_until s' = current_time inp + 20" .
  then obtain es1 s1 where f: "gui_update names (Some inp) s = (es1, Inr s1)" "MotionSense \<notin> set es1"
    "\<not> motion_enabled s1" "motion_disabled_until s1 = current_time inp + 20"
    by blast
  from quiet f(4)
  have q: "\<forall>i. Some i \<in> set rds \<longrightarrow> current_time i < motion_disabled_until s1 \<and> person_free names i"
    by simp
  obtain st es2 s2 where run: "run_gui names rds s1 = (st, es2, s2)"
    by (cases "run_gui names rds s1") auto
  with run_gui_hold [OF f(3) q] f(4)
  have r: "MotionSense \<notin> set es2" "\<not> motion_enabled s2"
    "motion_disabled_until s2 = current_time inp + 20"
    by simp_all
  from r(3) late(1) have l: "motion_disabled_until s2 \<le> current_time inp'" by simp
  have "\<forall>es3 s3. gui_update names (Some inp') s2 = (es3, Inr s3) \<longrightarrow>
          MotionSense \<notin> set es3 \<and> motion_enabled s3"
    using gui_update_release [OF r(2) l late(2)] by blast
  with f run r show "(\<exists>es1 s1. gui_update names (Some inp) s = (es1, Inr s1) \<and> MotionSense \<notin> set es1
              \<and> \<not> motion_enabled s1 \<and> motion_disabled_until s1 = current_time inp + 20
              \<and> (\<exists>st es2 s2. run_gui names rds s1 = (st, es2, s2) \<and> MotionSense \<notin> set es2
                    \<and> \<not> motion_enabled s2 \<and> motion_disabled_until s2 = current_time inp + 20
                    \<and> (\<forall>es3 s3. gui_update names (Some inp') s2 = (es3, Inr s3) \<longrightarrow>
                          MotionSense \<notin> set es3 \<and> motion_enabled s3)))" by blast
qed

text \<open>The window at concrete inputs: a person at time 100, frames at 101 and 119, and a frame
  at 120.\<close>

lemma gate_suppression_window_example:
  "(\<exists>es1 s1. headless_frame coco (fr 100 (Some [[person_box]]) [600]) initial_state = (es1, Inr s1) \<and> MotionSense \<notin> set es1
               \<and> \<not> motion_enabled s1 \<and> motion_disabled_until s1 = 120
               \<and> (\<exists>st es2 s2. run_headless coco [Some (fr 101 None [600]), Some (fr 119 None [600])] s1 = (st, es2, s2) \<and> MotionSense \<notin> set es2
                     \<and> \<not> motion_enabled s2 \<and> motion_disabled_until s2 = 120
                     \<and> (\<forall>es3 s3. headless_frame coco (fr 120 None [600]) s2 = (es3, Inr s3) \<longrightarrow>
                           MotionSense \<notin> set es3 \<and> motion_enabled s3)))
   \<and> (\<exists>es1 s1. gui_update coco (Some (fr 100 (Some [[person_box]]) [600])) initial_state = (es1, Inr s1) \<and> MotionSense \<notin> set es1
               \<and> \<not> motion_enabled s1 \<and> motion_disabled_until s1 = 120
               \<and> (\<exists>st es2 s2. run_gui coco [Some (fr 101 None [600]), Some (fr 119 None [600])] s1 = (st, es2, s2) \<and> MotionSense \<notin> set es2
                     \<and> \<not> motion_enabled s2 \<and> motion_disabled_until s2 = 120
                     \<and> (\<forall>es3 s3. gui_update coco (Some (fr 120 None [600])) s2 = (es3, Inr s3) \<longrightarrow>
                           MotionSense \<notin> set es3 \<and> motion_enabled s3)))"
  using gate_suppression_window [where s = initial_state and names = coco
          and inp = "fr 100 (Some [[person_box]]) [600]" and rs = "[[person_box]]"
          and rds = "[Some (fr 101 None [600]), Some (fr 119 None [600])]" and inp' = "fr 120 None [600]"]
  by (simp add: initial_state_def fr_def person_free_def collect_examples example_labels)

text \<open>C9. Where the person branch is reached, \<^verbatim>\<open>motion_disabled_until = current_time + 20\<close>
  replaces the window, as the claim says, and the window loop reaches it for a person
  anywhere in the cache. The headless loop misses it when a cat or dog stands before the
  person (the defect of C3): after a person at time 100 and four skipped frames the gate
  is disabled until 120; the detector frame at time 105 whose batch is a cat followed by a
  person caches the person and leaves the window at 120. On the same reads the window loop
  moves it to 125.\<close>

theorem C9_headless_window_not_reset:
  "list_ex (\<lambda>d. label d = ''person'') (collect coco [[cat_box, person_box]])
   \<and> (case run_headless coco
            [Some (fr 100 (Some [[person_box]]) []), Some (fr 101 None []), Some (fr 102 None []),
             Some (fr 103 None []), Some (fr 104 None [])] initial_state of
        (st, es, s5) \<Rightarrow>
          st = Running \<and> frame_count s5 = 5 \<and> \<not> motion_enabled s5
          \<and> motion_disabled_until s5 = 120
          \<and> (case headless_frame coco (fr 105 (Some [[cat_box, person_box]]) []) s5 of
                (es', Inl e) \<Rightarrow> False
              | (es', Inr s6) \<Rightarrow>
                  RunDetector \<in> set es' \<and> person_det \<in> set (persistent_detections s6)
                  \<and> \<not> motion_enabled s6 \<and> motion_disabled_until s6 = 120))
   \<and> (case run_gui coco
            [Some (fr 100 (Some [[person_box]]) []), Some (fr 101 None []), Some (fr 102 None []),
             Some (fr 103 None []), Some (fr 104 None [])] initial_state of
        (st, es, s5) \<Rightarrow>
          st = Running \<and> frame_count s5 = 5 \<and> \<not> motion_enabled s5
          \<and> motion_disabled_until s5 = 120
          \<and> (case gui_update coco (Some (fr 105 (Some [[cat_box, person_box]]) [])) s5 of
                (es', Inl e) \<Rightarrow> False
              | (es', Inr s6) \<Rightarrow>
                  RunDetector \<in> set es' \<and> person_det \<in> set (persistent_detections s6)
                  \<and> \<not> motion_enabled s6 \<and> motion_disabled_until s6 = 125))"
  by (simp add: headless_frame_def yolo_headless_def person_save_headless_def motion_headless_def
        gui_update_def yolo_gui_def motion_gui_def
        play_gtts_text_def significant_motion_def fr_def initial_state_def Let_def
        collect_examples example_labels)

text \<open>The reset where the person branch is reached. While the gate is disabled, a detector
  frame at time \<open>T'\<close> whose first cached entry is a person (headless loop), or some cached
  entry of which is a person (window loop), returns with \<^verbatim>\<open>motion_disabled_until\<close> equal
  to \<open>T' + 20\<close>, whatever it was before, and the gate still disabled.\<close>

lemma gate_window_reset:
  assumes det: "frame_skip s \<noteq> 0" "frame_count s mod frame_skip s = 0" "results inp = Some rs"
    and disabled: "\<not> motion_enabled s" "current_time inp < motion_disabled_until s"
  shows
    "((\<exists>d ds. collect names rs = d # ds \<and> label d = ''person'') \<longrightarrow>
        (\<exists>es s'. headless_frame names inp s = (es, Inr s')
           \<and> \<not> motion_enabled s' \<and> motion_disabled_until s' = current_time inp + 20))
     \<and> ((\<exists>d \<in> set (collect names rs). label d = ''person'') \<longrightarrow>
        (\<exists>es s'. gui_update names (Some inp) s = (es, Inr s')
           \<and> \<not> motion_enabled s' \<and> motion_disabled_until s' = current_time inp + 20))"
proof (intro conjI impI)
  assume "\<exists>d ds. collect names rs = d # ds \<and> label d = ''person''"
  then obtain d ds where c: "collect names rs = d # ds" "label d = ''person''" by blast
  from headless_frame_person [OF det c]
  show "\<exists>es s'. headless_frame names inp s = (es, Inr s')
           \<and> \<not> motion_enabled s' \<and> motion_disabled_until s' = current_time inp + 20"
    by blast
next
  assume hit: "\<exists>d \<in> set (collect names rs). label d = ''person''"
  from gui_update_person [OF det hit]
  show "\<exists>es s'. gui_update names (Some inp) s = (es, Inr s')
           \<and> \<not> motion_enabled s' \<and> motion_disabled_until s' = current_time inp + 20"
    by blast
qed

text \<open>The reset at concrete inputs: the window that ended at 120 ends at 125.\<close>

lemma gate_window_reset_example:
  "(\<exists>es s'. headless_frame coco (fr 105 (Some [[person_box]]) [])
                (initial_state\<lparr>frame_count := 5, motion_enabled := False,
                               motion_disabled_until := 120, last_audio_time := 100\<rparr>) = (es, Inr s')
        \<and> \<not> motion_enabled s' \<and> motion_disabled_until s' = 125)
   \<and> (\<exists>es s'. gui_update coco (Some (fr 105 (Some [[cat_box, person_box]]) []))
                (initial_state\<lparr>frame_count := 5, motion_enabled := False,
                               motion_disabled_until := 120, last_audio_time := 100\<rparr>) = (es, Inr s')
        \<and> \<not> motion_enabled s' \<and> motion_disabled_until s' = 125)"
  using gate_window_reset [where s = "initial_state\<lparr>frame_count := 5, motion_enabled := False,
                               motion_disabled_until := 120, last_audio_time := 100\<rparr>"
          and names = coco and inp = "fr 105 (Some [[person_box]]) []" and rs = "[[person_box]]"]
        gate_window_reset [where s = "initial_state\<lparr>frame_count := 5, motion_enabled := False,
                               motion_disabled_until := 120, last_audio_time := 100\<rparr>"
          and names = coco and inp = "fr 105 (Some [[cat_box, person_box]]) []"
          and rs = "[[cat_box, person_box]]"]
  by (simp add: initial_state_def fr_def collect_examples example_labels)

subsection \<open>A detector call that raises\<close>

text \<open>C5 as stated fails: when the detector call of the first frame raises, the loop is
  left with that exception; the second frame is never processed (the frame counter is
  still 0), in both front ends.\<close>

theorem C5_counterexample:
  "fst (run_headless coco [Some (fr 100 None []), Some (fr 101 (Some [[person_box]]) [])] initial_state)
     = Raised DetectorRaised
   \<and> fst (run_headless coco [Some (fr 100 None []), Some (fr 101 (Some [[person_box]]) [])] initial_state)
     \<noteq> Running
   \<and> frame_count (snd (snd (run_headless coco
        [Some (fr 100 None []), Some (fr 101 (Some [[person_box]]) [])] initial_state))) = 0
   \<and> fst (run_gui coco [Some (fr 100 None []), Some (fr 101 (Some [[person_box]]) [])] initial_state)
     = Raised DetectorRaised
   \<and> frame_count (snd (snd (run_gui coco
        [Some (fr 100 None []), Some (fr 101 (Some [[person_box]]) [])] initial_state))) = 0"
  by (simp add: headless_frame_def yolo_headless_def gui_update_def yolo_gui_def fr_def
        initial_state_def)

text \<open>C5, amended. Neither front end catches an exception of the detector call. On a
  detector frame whose call raises, the state is what it was before the frame (so the cache
  is retained), nothing but the detector call has happened, and the loop ends there with
  the exception, whatever frames would follow; the headless loop releases the video source
  on its way out.\<close>

theorem C5_detector_failure_stops_loop:
  assumes "frame_skip s \<noteq> 0" "frame_count s mod frame_skip s = 0" "results inp = None"
  shows "run_headless names (Some inp # rest) s = (Raised DetectorRaised, [RunDetector, ReleaseSource], s)
         \<and> run_gui names (Some inp # rest) s = (Raised DetectorRaised, [RunDetector], s)"
  by (simp add: headless_frame_Inl [OF yolo_headless_raise [OF assms]]
        gui_update_Inl [OF yolo_gui_raise [OF assms]])

text \<open>C5 amended, at concrete inputs.\<close>

theorem C5_detector_failure_stops_loop_witness:
  "run_headless coco [Some (fr 100 None []), Some (fr 101 (Some [[person_box]]) [])] initial_state
     = (Raised DetectorRaised, [RunDetector, ReleaseSource], initial_state)
   \<and> run_gui coco [Some (fr 100 None []), Some (fr 101 (Some [[person_box]]) [])] initial_state
     = (Raised DetectorRaised, [RunDetector], initial_state)"
  using C5_detector_failure_stops_loop [of initial_state "fr 100 None []" coco
          "[Some (fr 101 (Some [[person_box]]) [])]"]
  by (simp add: initial_state_def fr_def)

subsection \<open>Frames on which the detector is skipped\<close>

text \<open>C10 as stated fails in its last part: after a person at time 100 and a frame at time
  120 that re-enables the gate, the frame at time 121 is a skipped frame with the person
  still cached, and the motion alert it plays moves \<^verbatim>\<open>last_audio_time\<close> from 100 to 121.\<close>

theorem C10_counterexample:
  "(case run_headless coco [Some (fr 100 (Some [[person_box]]) []), Some (fr 120 None [])]
           initial_state of
      (st, es, s2) \<Rightarrow>
        st = Running \<and> frame_count s2 mod frame_skip s2 \<noteq> 0
        \<and> person_det \<in> set (persistent_detections s2) \<and> last_audio_time s2 = 100
        \<and> (case headless_frame coco (fr 121 None [600]) s2 of
              (es', Inl e) \<Rightarrow> False
            | (es', Inr s3) \<Rightarrow>
                RunDetector \<notin> set es' \<and> person_det \<in> set (persistent_detections s3)
                \<and> last_audio_time s3 = 121 \<and> last_audio_time s3 \<noteq> last_audio_time s2))"
  by (simp add: headless_frame_def yolo_headless_def person_save_headless_def motion_headless_def
        play_gtts_text_def significant_motion_def fr_def initial_state_def Let_def
        collect_examples example_labels)

text \<open>C10, amended. A frame on which the detector is skipped returns, in both front ends,
  with no person or animal alert requested, \<^verbatim>\<open>motion_disabled_until\<close> and the cache as they
  were, and the gate not disabled if it was enabled, whatever the cache holds. The time of
  the last audio changes on such a frame only when the motion branch plays its alert: then
  motion was sensed and significant, the motion cooldown of 10 had passed, and the new
  value is the time of that play.\<close>

theorem C10_skipped_frame_quiet:
  assumes "frame_skip s \<noteq> 0" "frame_count s mod frame_skip s \<noteq> 0"
  shows
    "(\<exists>es s'. headless_frame names inp s = (es, Inr s')
         \<and> RunDetector \<notin> set es \<and> dispatched es = []
         \<and> motion_disabled_until s' = motion_disabled_until s
         \<and> (motion_enabled s \<longrightarrow> motion_enabled s')
         \<and> persistent_detections s' = persistent_detections s
         \<and> (last_audio_time s' \<noteq> last_audio_time s \<longrightarrow>
              MotionSense \<in> set es \<and> significant_motion inp
              \<and> 10 \<le> motion_clock inp - last_audio_time s
              \<and> last_audio_time s' = motion_clock inp))
     \<and> (\<exists>es s'. gui_update names (Some inp) s = (es, Inr s')
         \<and> RunDetector \<notin> set es \<and> dispatched es = []
         \<and> motion_disabled_until s' = motion_disabled_until s
         \<and> (motion_enabled s \<longrightarrow> motion_enabled s')
         \<and> persistent_detections s' = persistent_detections s
         \<and> (last_audio_time s' \<noteq> last_audio_time s \<longrightarrow>
              MotionSense \<in> set es \<and> significant_motion inp
              \<and> 10 \<le> motion_clock inp - last_audio_time s
              \<and> last_audio_time s' = motion_clock inp))"
  using headless_frame_skipped_quiet [OF assms, of names inp]
        gui_update_skipped_quiet [OF assms, of names inp]
  by (rule conjI)

text \<open>C10 amended, at concrete inputs: a skipped frame with a person cached and the gate
  disabled.\<close>

theorem C10_skipped_frame_quiet_witness:
  "(\<exists>es s'. headless_frame coco (fr 101 None [600])
               (initial_state\<lparr>frame_count := 1, persistent_detections := [person_det],
                  motion_enabled := False, motion_disabled_until := 120, last_audio_time := 100\<rparr>)
               = (es, Inr s')
         \<and> RunDetector \<notin> set es \<and> dispatched es = []
         \<and> motion_disabled_until s' = 120
         \<and> persistent_detections s' = [person_det]
         \<and> last_audio_time s' = 100)
   \<and> (\<exists>es s'. gui_update coco (Some (fr 101 None [600]))
               (initial_state\<lparr>frame_count := 1, persistent_detections := [person_det],
                  motion_enabled := False, motion_disabled_until := 120, last_audio_time := 100\<rparr>)
               = (es, Inr s')
         \<and> RunDetector \<notin> set es \<and> dispatched es = []
         \<and> motion_disabled_until s' = 120
         \<and> persistent_detections s' = [person_det]
         \<and> last_audio_time s' = 100)"
  using C10_skipped_frame_quiet [of "initial_state\<lparr>frame_count := 1,
          persistent_detections := [person_det],
          motion_enabled := False, motion_disabled_until := 120, last_audio_time := 100\<rparr>"
          coco "fr 101 None [600]"]
  by (simp add: initial_state_def fr_def significant_motion_def)

subsection \<open>The alert of a detector frame\<close>




subsection \<open>The save of a motion frame\<close>

text \<open>C7 as stated fails in the headless loop: the frame saved by the motion branch has
  the cached boxes drawn on it (here the box of the cat), it is not the frame as read.\<close>

theorem C7_counterexample:
  "significant_motion (fr 100 (Some [[cat_box]]) [600])
   \<and> MotionSense \<in> set (fst (headless_frame coco (fr 100 (Some [[cat_box]]) [600]) initial_state))
   \<and> SaveFrame Motion [cat_det]
       \<in> set (fst (headless_frame coco (fr 100 (Some [[cat_box]]) [600]) initial_state))
   \<and> [cat_det] \<noteq> []
   \<and> SaveFrame Motion []
       \<notin> set (fst (headless_frame coco (fr 100 (Some [[cat_box]]) [600]) initial_state))"
  by (simp add: headless_frame_def yolo_headless_def person_save_headless_def motion_headless_def
        play_gtts_text_def significant_motion_def fr_def initial_state_def Let_def
        collect_examples example_labels)

text \<open>C7, amended. On a frame on which motion is sensed and significant, the frame returns
  and:
  \<^item> in the headless loop, if 0.2 or more has passed since the last motion save, the frame
    ends with the save of the frame carrying the cached boxes, the only motion save of
    the frame, and, after it, the request of the motion alert with cooldown 10, which
    plays (and sets \<^verbatim>\<open>last_audio_time\<close>) or is stopped within 10 of the last audio;
    otherwise nothing is saved by the motion branch, no motion alert is requested and the
    time of the last motion save is kept;
  \<^item> in the window loop, every motion frame saved is the frame as read, and, if 0.2 or
    more has passed since the last motion save, the frame is saved and the motion alert
    is requested after it in the same way.\<close>

theorem C7_motion_save:
  assumes "significant_motion inp"
  shows
    "(MotionSense \<in> set (fst (headless_frame names inp s)) \<longrightarrow>
        (\<exists>es s'. headless_frame names inp s = (es, Inr s')
          \<and> (if 0.2 \<le> current_time inp - last_saved_times s Motion
              then \<exists>pre ops. es = pre @ [MotionSense, SaveFrame Motion (persistent_detections s'),
                                          PlayGtts MotionAlert 10 2.22 ops]
                     \<and> MotionSense \<notin> set pre \<and> (\<forall>b. SaveFrame Motion b \<notin> set pre)
                     \<and> last_saved_times s' Motion = current_time inp
                     \<and> (ops \<noteq> [] \<longrightarrow> last_audio_time s' = motion_clock inp)
                     \<and> (ops = [] \<longrightarrow> motion_clock inp - last_audio_time s' < 10)
              else (\<forall>b. SaveFrame Motion b \<notin> set es) \<and> MotionAlert \<notin> set (alerts_of es)
                     \<and> last_saved_times s' Motion = last_saved_times s Motion)))
     \<and> (MotionSense \<in> set (fst (gui_update names (Some inp) s)) \<longrightarrow>
        (\<exists>es s'. gui_update names (Some inp) s = (es, Inr s')
          \<and> (\<forall>b. SaveFrame Motion b \<in> set es \<longrightarrow> b = [])
          \<and> (0.2 \<le> current_time inp - last_saved_times s Motion \<longrightarrow>
               (\<exists>pre ops post. es = pre @ [MotionSense, SaveFrame Motion [],
                                            PlayGtts MotionAlert 10 1.61 ops] @ post
                  \<and> MotionSense \<notin> set pre \<and> MotionSense \<notin> set post
                  \<and> last_saved_times s' Motion = current_time inp
                  \<and> (ops \<noteq> [] \<longrightarrow> last_audio_time s' = motion_clock inp)
                  \<and> (ops = [] \<longrightarrow> motion_clock inp - last_audio_time s' < 10)))))"
  using headless_frame_motion_save [OF _ assms, of names s]
        gui_update_motion_save [OF _ assms, of names s]
  by blast

text \<open>C7 amended, at concrete inputs: a headless frame that saves, one that is held back
  by the interval, and a frame of the window loop.\<close>

theorem C7_motion_save_witness:
  "(\<exists>es s'. headless_frame coco (fr 100 (Some [[cat_box]]) [600]) initial_state = (es, Inr s')
      \<and> (\<exists>pre ops. es = pre @ [MotionSense, SaveFrame Motion (persistent_detections s'),
                               PlayGtts MotionAlert 10 2.22 ops]
            \<and> MotionSense \<notin> set pre \<and> (\<forall>b. SaveFrame Motion b \<notin> set pre)
            \<and> last_saved_times s' Motion = 100
            \<and> (ops \<noteq> [] \<longrightarrow> last_audio_time s' = 100)
            \<and> (ops = [] \<longrightarrow> 100 - last_audio_time s' < 10)))
   \<and> (\<exists>es s'. headless_frame coco (fr 100 (Some [[cat_box]]) [600])
                 (initial_state\<lparr>last_saved_times := (\<lambda>k. 0)(Motion := 99.9)\<rparr>) = (es, Inr s')
      \<and> (\<forall>b. SaveFrame Motion b \<notin> set es) \<and> MotionAlert \<notin> set (alerts_of es)
      \<and> last_saved_times s' Motion = 99.9)
   \<and> (\<exists>es s'. gui_update coco (Some (fr 100 (Some [[cat_box]]) [600])) initial_state = (es, Inr s')
      \<and> (\<forall>b. SaveFrame Motion b \<in> set es \<longrightarrow> b = [])
      \<and> (\<exists>pre ops post. es = pre @ [MotionSense, SaveFrame Motion [],
                                     PlayGtts MotionAlert 10 1.61 ops] @ post
            \<and> MotionSense \<notin> set pre \<and> MotionSense \<notin> set post
            \<and> last_saved_times s' Motion = 100
            \<and> (ops \<noteq> [] \<longrightarrow> last_audio_time s' = 100)
            \<and> (ops = [] \<longrightarrow> 100 - last_audio_time s' < 10)))"
  using C7_motion_save [where inp = "fr 100 (Some [[cat_box]]) [600]" and names = coco
          and s = initial_state]
        C7_motion_save [where inp = "fr 100 (Some [[cat_box]]) [600]" and names = coco
          and s = "initial_state\<lparr>last_saved_times := (\<lambda>k. 0)(Motion := 99.9)\<rparr>"]
        example_frames
  by (simp add: initial_state_def fr_def)

text \<open>The window loop has no check of the interval before its motion save, although the
  comment above the branch announces one: a frame 0.1 after the last motion save is saved.\<close>

lemma gui_motion_save_unthrottled:
  "SaveFrame Motion []
     \<in> set (fst (gui_update coco (Some (fr 100.1 None [600]))
                   (initial_state\<lparr>frame_count := 1, last_saved_times := (\<lambda>k. 0)(Motion := 100)\<rparr>)))
   \<and> \<not> 0.2 \<le> current_time (fr 100.1 None [600])
             - last_saved_times (initial_state\<lparr>frame_count := 1,
                   last_saved_times := (\<lambda>k. 0)(Motion := 100)\<rparr>) Motion"
  by (simp add: gui_update_def yolo_gui_def motion_gui_def
        play_gtts_text_def significant_motion_def fr_def initial_state_def Let_def case_prod_beta)

end
